theory Spec2Isabelle
  imports Complex_Main
begin

section \<open>The notebook \<open>combine_data.py\<close> as a state-passing program\<close>

text \<open>
  The source is a flat script: every statement is an assignment or a call into numpy or
  matplotlib, run top to bottom in one global namespace. The model keeps that shape. The
  interpreter state holds the global namespace, a store of the numpy arrays allocated so
  far, and the figures, axes and artists the plotting calls have built. A statement is a
  function from a state to an exception or a new state, and the script is the list of its
  statements in source order.

  The script is a notebook export and runs in an IPython session, as line 30
  (\<open>get_ipython().run_line_magic(...)\<close>) requires. That line, the imports and the \<open>print\<close>
  calls change nothing the model keeps and are left out. Floating-point numbers are
  idealised as reals and Python integers are \<open>int\<close>. Colours and tick parameters are not
  part of the state.

  numpy and matplotlib are not part of the sources. Their functions are modelled as far as
  the script uses them: a numpy function allocates a new array for its result, a plotting
  function records what it was asked to draw. An axes object keeps its view limits and,
  for each axis, whether the library is to choose the limits from the data when it draws
  (autoscaling); that choice itself is not modelled.
\<close>

subsection \<open>Values, arrays and the store\<close>

datatype error =
    NameError string
  | IndexError
  | TypeError
  | ValueError
  | LibraryError string

datatype ndarray = IntArr "int list" | FloatArr "real list"

fun len :: "ndarray \<Rightarrow> nat" where
  "len (IntArr xs) = length xs"
| "len (FloatArr xs) = length xs"

fun as_float :: "ndarray \<Rightarrow> real list" where
  "as_float (IntArr xs) = map real_of_int xs"
| "as_float (FloatArr xs) = xs"

text \<open>
  Python values that the script binds to names: references to arrays, axes and figures
  (by address), strings, integers, lists and tuples.
\<close>

datatype pyval =
    Arr nat
  | Axes nat
  | Fig nat
  | PyStr string
  | PyInt int
  | PyList "pyval list"
  | PyNone

text \<open>An array object remembers the notebook cell (\<open>In[n]\<close>) that allocated it.\<close>

record array_obj =
  created_in :: nat
  contents :: ndarray

record line2d =
  l_axes :: nat
  l_cell :: nat
  xdata :: nat
  ydata :: nat
  l_label :: pyval

record rectangle =
  rect_x :: real
  rect_y :: real
  rect_width :: real
  rect_height :: real

record bar_container =
  b_axes :: nat
  b_cell :: nat
  b_x :: nat
  b_height :: nat
  b_bottom :: "nat option"
  b_width :: real
  b_label :: pyval
  patches :: "rectangle list"

record axes_obj =
  figure_of :: nat
  sharex_group :: nat
  sharey_group :: nat
  xlim :: "real \<times> real"
  ylim :: "real \<times> real"
  autoscalex_on :: bool
  autoscaley_on :: bool
  xticks :: "real list option"
  xticks_minor :: "real list option"
  xlabel :: string
  ylabel :: string
  ax_title :: string
  legend :: "string list option"

record figure_obj =
  closed :: bool
  suptitle :: "string option"

record state =
  cell :: nat
  env :: "(string \<times> pyval) list"
  heap :: "array_obj list"
  axs :: "axes_obj list"
  figs :: "figure_obj list"
  cur_fig :: "nat option"
  cur_ax :: "nat option"
  lines :: "line2d list"
  bars :: "bar_container list"
  reads :: "(nat \<times> nat) list"
  calls :: nat
  fault :: "(nat \<times> error) option"

text \<open>
  \<open>env\<close> is the global namespace. An array, an axes object and a figure are known by
  their positions in \<open>heap\<close>, \<open>axs\<close> and \<open>figs\<close>. \<open>reads\<close> logs every array a numpy or
  plotting call reads, as (cell of the call, address).
  \<open>fault\<close> plans at most one failure of the plotting library: \<open>Some (k, e)\<close> makes its
  \<open>k\<close>-th call (counted from 0 by \<open>calls\<close>) raise \<open>e\<close>; \<open>None\<close> is a library that raises
  only on the malformed input the model knows of (mismatched lengths).
\<close>

definition init :: "(nat \<times> error) option \<Rightarrow> state" where
  "init f = \<lparr> cell = 0, env = [], heap = [], axs = [], figs = [],
      cur_fig = None, cur_ax = None, lines = [], bars = [], reads = [], calls = 0,
      fault = f \<rparr>"

text \<open>The element at one position replaced, the list otherwise unchanged.\<close>

definition update_at :: "nat \<Rightarrow> ('a \<Rightarrow> 'a) \<Rightarrow> 'a list \<Rightarrow> 'a list" where
  "update_at i f xs = map (\<lambda>(j, x). if j = i then f x else x) (enumerate 0 xs)"

subsection \<open>Computations that may raise\<close>

type_synonym 'a py = "state \<Rightarrow> error + ('a \<times> state)"

definition ret :: "'a \<Rightarrow> 'a py" where
  "ret v s = Inr (v, s)"

definition raise :: "error \<Rightarrow> 'a py" where
  "raise e s = Inl e"

definition bind_py :: "'a py \<Rightarrow> ('a \<Rightarrow> 'b py) \<Rightarrow> 'b py" where
  "bind_py m f s = (case m s of Inl e \<Rightarrow> Inl e | Inr (v, s') \<Rightarrow> f v s')"

definition then_py :: "unit py \<Rightarrow> 'b py \<Rightarrow> 'b py" where
  "then_py m n = bind_py m (\<lambda>_. n)"

definition modify :: "(state \<Rightarrow> state) \<Rightarrow> unit py" where
  "modify f s = Inr ((), f s)"

definition gets :: "(state \<Rightarrow> 'a) \<Rightarrow> 'a py" where
  "gets f s = Inr (f s, s)"

text \<open>
  The script has no \<open>try\<close>: statements run in order and the first exception ends the run.
\<close>

fun exec :: "unit py list \<Rightarrow> state \<Rightarrow> error + state" where
  "exec [] s = Inr s"
| "exec (c # cs) s = (case c s of Inl e \<Rightarrow> Inl e | Inr (_, s') \<Rightarrow> exec cs s')"

text \<open>The comment \<open># In[n]:\<close> that opens a notebook cell.\<close>

definition In :: "nat \<Rightarrow> unit py" where
  "In n = modify (\<lambda>s. s\<lparr>cell := n\<rparr>)"

subsection \<open>Names, literals and subscripts\<close>

text \<open>Binding a name: an existing binding is replaced, a new one is added.\<close>

fun bind_name :: "string \<Rightarrow> pyval \<Rightarrow> (string \<times> pyval) list \<Rightarrow> (string \<times> pyval) list" where
  "bind_name n v [] = [(n, v)]"
| "bind_name n v ((m, w) # bs) = (if m = n then (n, v) # bs else (m, w) # bind_name n v bs)"

definition var :: "string \<Rightarrow> pyval py" where
  "var n s = (case map_of (env s) n of None \<Rightarrow> Inl (NameError n) | Some v \<Rightarrow> Inr (v, s))"

definition assign :: "string \<Rightarrow> pyval py \<Rightarrow> unit py" where
  "assign n e = bind_py e (\<lambda>v. modify (\<lambda>s. s\<lparr>env := bind_name n v (env s)\<rparr>))"

text \<open>Tuple unpacking \<open>a, b = e\<close>.\<close>

definition assign2 :: "string \<Rightarrow> string \<Rightarrow> pyval py \<Rightarrow> unit py" where
  "assign2 a b e = bind_py e (\<lambda>v. case v of
       PyList [va, vb] \<Rightarrow> modify (\<lambda>s. s\<lparr>env := bind_name b vb (bind_name a va (env s))\<rparr>)
     | _ \<Rightarrow> raise ValueError)"

definition py_index :: "pyval list \<Rightarrow> int \<Rightarrow> pyval py" where
  "py_index xs i =
     (let n = int (length xs); j = (if i < 0 then n + i else i)
      in if 0 \<le> j \<and> j < n then ret (xs ! nat j) else raise IndexError)"

text \<open>\<open>e[i]\<close> on a list, and \<open>e[i, j]\<close> on the two-dimensional array of axes.\<close>

definition subscr :: "pyval py \<Rightarrow> pyval py \<Rightarrow> pyval py" where
  "subscr e i = bind_py e (\<lambda>v. bind_py i (\<lambda>k. case (v, k) of
       (PyList xs, PyInt j) \<Rightarrow> py_index xs j
     | _ \<Rightarrow> raise TypeError))"

definition subscr2 :: "pyval py \<Rightarrow> pyval py \<Rightarrow> pyval py \<Rightarrow> pyval py" where
  "subscr2 e i j = subscr (subscr e i) j"

text \<open>A list display \<open>[e1, e2, ...]\<close>, evaluated left to right.\<close>

fun eval_all :: "pyval py list \<Rightarrow> pyval list py" where
  "eval_all [] = ret []"
| "eval_all (e # es) = bind_py e (\<lambda>v. bind_py (eval_all es) (\<lambda>vs. ret (v # vs)))"

definition py_list :: "pyval py list \<Rightarrow> pyval py" where
  "py_list es = bind_py (eval_all es) (\<lambda>vs. ret (PyList vs))"

text \<open>\<open>for v in range(n): body\<close>; the loop variable is a global name.\<close>

fun for_in :: "string \<Rightarrow> int list \<Rightarrow> unit py \<Rightarrow> unit py" where
  "for_in v [] body = ret ()"
| "for_in v (i # is) body =
     then_py (assign v (ret (PyInt i))) (then_py body (for_in v is body))"

definition py_range :: "nat \<Rightarrow> int list" where
  "py_range n = map int [0..<n]"

subsection \<open>numpy\<close>

definition alloc :: "ndarray \<Rightarrow> pyval py" where
  "alloc a s = Inr (Arr (length (heap s)),
       s\<lparr>heap := heap s @ [\<lparr>created_in = cell s, contents = a\<rparr>]\<rparr>)"

text \<open>Reading an array through a reference; the read is logged.\<close>

definition deref :: "pyval \<Rightarrow> ndarray py" where
  "deref v s = (case v of
       Arr a \<Rightarrow>
         if a < length (heap s)
         then Inr (contents (heap s ! a), s\<lparr>reads := reads s @ [(cell s, a)]\<rparr>)
         else Inl TypeError
     | _ \<Rightarrow> Inl TypeError)"

text \<open>
  \<open>np.linspace(start, stop, num)\<close>: \<open>num\<close> evenly spaced samples, the last one set to
  \<open>stop\<close>.
\<close>

definition linspace :: "real \<Rightarrow> real \<Rightarrow> nat \<Rightarrow> real list" where
  "linspace start stop num =
     (if num = 0 then []
      else if num = 1 then [start]
      else map (\<lambda>i. start + real i * ((stop - start) / real (num - 1))) [0..<num - 1] @ [stop])"

definition np_linspace :: "real \<Rightarrow> real \<Rightarrow> nat \<Rightarrow> pyval py" where
  "np_linspace start stop num = alloc (FloatArr (linspace start stop num))"

text \<open>\<open>np.arange(start, stop, step)\<close> on integers with a positive step.\<close>

definition arange :: "int \<Rightarrow> int \<Rightarrow> int \<Rightarrow> int list" where
  "arange start stop step =
     map (\<lambda>i. start + int i * step) [0..<nat ((stop - start + step - 1) div step)]"

definition np_arange :: "int \<Rightarrow> int \<Rightarrow> int \<Rightarrow> pyval py" where
  "np_arange start stop step =
     (if step \<le> 0 then raise ValueError else alloc (IntArr (arange start stop step)))"

definition np_array :: "int list \<Rightarrow> pyval py" where
  "np_array xs = alloc (IntArr xs)"

text \<open>
  A universal function (\<open>np.sin\<close>, \<open>np.sinh\<close>, ...) and the arithmetic of an array with a
  float scalar: each reads its argument and allocates a new float array for the result.
\<close>

definition ufunc :: "(real \<Rightarrow> real) \<Rightarrow> pyval py \<Rightarrow> pyval py" where
  "ufunc f e = bind_py e (\<lambda>v. bind_py (deref v) (\<lambda>a. alloc (FloatArr (map f (as_float a)))))"

definition np_sin :: "pyval py \<Rightarrow> pyval py" where "np_sin = ufunc sin"
definition np_cos :: "pyval py \<Rightarrow> pyval py" where "np_cos = ufunc cos"
definition np_tan :: "pyval py \<Rightarrow> pyval py" where "np_tan = ufunc tan"
definition np_sinh :: "pyval py \<Rightarrow> pyval py" where "np_sinh = ufunc sinh"
definition np_cosh :: "pyval py \<Rightarrow> pyval py" where "np_cosh = ufunc cosh"
definition np_tanh :: "pyval py \<Rightarrow> pyval py" where "np_tanh = ufunc tanh"

definition arr_div :: "pyval py \<Rightarrow> real \<Rightarrow> pyval py" where
  "arr_div e c = ufunc (\<lambda>v. v / c) e"

definition arr_sub :: "pyval py \<Rightarrow> real \<Rightarrow> pyval py" where
  "arr_sub e c = ufunc (\<lambda>v. v - c) e"

definition arr_add :: "pyval py \<Rightarrow> real \<Rightarrow> pyval py" where
  "arr_add e c = ufunc (\<lambda>v. v + c) e"

subsection \<open>matplotlib: figures and axes\<close>

text \<open>
  Every call into the plotting library goes through \<open>mpl\<close>, which counts the call and
  raises the planned exception when its turn has come.
\<close>

definition mpl :: "'a py \<Rightarrow> 'a py" where
  "mpl m s = (case fault s of
       None \<Rightarrow> m (s\<lparr>calls := calls s + 1\<rparr>)
     | Some (k, e) \<Rightarrow> if k = calls s then Inl e else m (s\<lparr>calls := calls s + 1\<rparr>))"

text \<open>
  A fresh axes object: view limits (0, 1) with autoscaling on, no fixed ticks, no labels,
  no legend. \<open>gx\<close> and \<open>gy\<close> name the groups of axes it shares its x and y axis with.
\<close>

definition new_axes :: "nat \<Rightarrow> nat \<Rightarrow> nat \<Rightarrow> axes_obj" where
  "new_axes f gx gy = \<lparr> figure_of = f, sharex_group = gx, sharey_group = gy,
      xlim = (0, 1), ylim = (0, 1), autoscalex_on = True, autoscaley_on = True,
      xticks = None, xticks_minor = None, xlabel = [], ylabel = [], ax_title = [],
      legend = None \<rparr>"

definition new_figure :: "nat py" where
  "new_figure s = Inr (length (figs s),
       s\<lparr>figs := figs s @ [\<lparr>closed = False, suptitle = None\<rparr>],
         cur_fig := Some (length (figs s)), cur_ax := None\<rparr>)"

definition plt_figure :: "pyval py" where
  "plt_figure = mpl (bind_py new_figure (\<lambda>f. ret (Fig f)))"

text \<open>
  \<open>plt.close()\<close> closes the current figure. The script creates a new figure before it
  draws again, so no other figure is made current here.
\<close>

definition plt_close :: "unit py" where
  "plt_close = mpl (modify (\<lambda>s. case cur_fig s of
       None \<Rightarrow> s
     | Some f \<Rightarrow> s\<lparr>figs := update_at f (\<lambda>g. g\<lparr>closed := True\<rparr>) (figs s),
                  cur_fig := None, cur_ax := None\<rparr>))"

datatype share = ShareNone | ShareAll | ShareRow | ShareCol

fun share_group :: "share \<Rightarrow> nat \<Rightarrow> nat \<Rightarrow> nat \<Rightarrow> nat \<Rightarrow> nat" where
  "share_group ShareNone base ncols r c = base + r * ncols + c"
| "share_group ShareAll base ncols r c = base"
| "share_group ShareRow base ncols r c = base + r * ncols"
| "share_group ShareCol base ncols r c = base + c"

text \<open>
  What \<open>plt.subplots\<close> returns beside the figure: one axes for a 1x1 grid, a list for a
  single row or column, a list of rows otherwise.
\<close>

definition axes_grid :: "nat \<Rightarrow> nat \<Rightarrow> nat \<Rightarrow> pyval" where
  "axes_grid base nrows ncols =
     (if nrows = 1 \<and> ncols = 1 then Axes base
      else if nrows = 1 \<or> ncols = 1 then PyList (map (\<lambda>i. Axes (base + i)) [0..<nrows * ncols])
      else PyList (map (\<lambda>r. PyList (map (\<lambda>c. Axes (base + r * ncols + c)) [0..<ncols]))
             [0..<nrows]))"

text \<open>
  Modelled from the spec: \<open>plt.subplots(nrows, ncols, sharex=..., sharey=...)\<close>, which the
  sources only call. It makes a new figure with a grid of axes, numbered row by row. The
  spec's shared-axis subplot grid is "a rectangular arrangement of chart panels where axis
  ranges/ticks are synchronized across rows or columns"; by the script's comment (lines 173
  to 175), with \<open>sharex="all"\<close> and \<open>sharey="row"\<close> "all subplots share the same x-axis,
  subplots in the top and bottom rows share the same y-axis". So with \<open>sharex="all"\<close>
  every axes joins the x group of the first one, and with \<open>sharey="row"\<close> every axes
  joins the y group of the first of its row. The last axes added is the current one.
\<close>

definition grid_axes :: "nat \<Rightarrow> share \<Rightarrow> share \<Rightarrow> nat \<Rightarrow> nat \<Rightarrow> nat \<Rightarrow> axes_obj list" where
  "grid_axes f shx shy base nrows ncols =
     concat (map (\<lambda>r. map (\<lambda>c. new_axes f (share_group shx base ncols r c)
                                         (share_group shy base ncols r c)) [0..<ncols])
       [0..<nrows])"

definition plt_subplots :: "nat \<Rightarrow> nat \<Rightarrow> share \<Rightarrow> share \<Rightarrow> pyval py" where
  "plt_subplots nrows ncols shx shy =
     mpl (if nrows = 0 \<or> ncols = 0 then raise ValueError
      else bind_py new_figure (\<lambda>f. bind_py (gets (\<lambda>s. length (axs s))) (\<lambda>base.
        then_py (modify (\<lambda>s.
          s\<lparr>axs := axs s @ grid_axes f shx shy base nrows ncols,
            cur_ax := Some (base + nrows * ncols - 1)\<rparr>))
        (ret (PyList [Fig f, axes_grid base nrows ncols])))))"

text \<open>The axes object behind a value; anything else has no axes methods.\<close>

definition the_axes :: "pyval \<Rightarrow> (nat \<times> axes_obj) py" where
  "the_axes v s = (case v of
       Axes a \<Rightarrow> if a < length (axs s) then Inr ((a, axs s ! a), s) else Inl TypeError
     | _ \<Rightarrow> Inl TypeError)"

definition update_axes :: "nat \<Rightarrow> (axes_obj \<Rightarrow> axes_obj) \<Rightarrow> unit py" where
  "update_axes a f = modify (\<lambda>s. s\<lparr>axs := update_at a f (axs s)\<rparr>)"

text \<open>An update applied to every axes whose group, read by \<open>grp\<close>, is \<open>g\<close>.\<close>

definition update_group :: "(axes_obj \<Rightarrow> nat) \<Rightarrow> nat \<Rightarrow> (axes_obj \<Rightarrow> axes_obj) \<Rightarrow> unit py" where
  "update_group grp g f =
     modify (\<lambda>s. s\<lparr>axs := map (\<lambda>ax. if grp ax = g then f ax else ax) (axs s)\<rparr>)"

text \<open>
  Modelled from the spec: \<open>ax.twinx()\<close>, which the sources only call. The spec's
  dual-axis plot is "a chart with two independent vertical scales sharing one horizontal
  scale", and line 83 of the script says "instantiate a second axis that shares the same
  x-axis". So the call makes a second axes on the same figure that joins the x group of
  \<open>ax\<close> and takes over its x limits and ticks, with a y group of its own.
\<close>

definition Axes_twinx :: "pyval \<Rightarrow> pyval py" where
  "Axes_twinx v = mpl (bind_py (the_axes v) (\<lambda>(a, ax).
       bind_py (gets (\<lambda>s. length (axs s))) (\<lambda>b.
         then_py (modify (\<lambda>s.
           s\<lparr>axs := axs s @ [(new_axes (figure_of ax) (sharex_group ax) b)
                   \<lparr>xlim := xlim ax, autoscalex_on := autoscalex_on ax,
                    xticks := xticks ax, xticks_minor := xticks_minor ax\<rparr>],
             cur_ax := Some b\<rparr>))
         (ret (Axes b)))))"

text \<open>
  Modelled from the spec: \<open>ax.set_xlim(lo, hi)\<close> and \<open>ax.set_ylim(lo, hi)\<close>, which the
  sources only call. Axis ranges are "synchronized" (spec) within a sharing group: "since
  the x-axes limits are shared, setting one affects all" and "y-axes need to set for each
  row once" (lines 179 and 181). So the call sets the view limits of every axes in the
  sharing group of \<open>ax\<close> and switches autoscaling of that axis off; an axes outside the
  group is not touched.
\<close>

definition Axes_set_xlim :: "real \<Rightarrow> real \<Rightarrow> pyval \<Rightarrow> unit py" where
  "Axes_set_xlim lo hi v = mpl (bind_py (the_axes v) (\<lambda>(a, ax).
       update_group sharex_group (sharex_group ax)
         (\<lambda>ax'. ax'\<lparr>xlim := (lo, hi), autoscalex_on := False\<rparr>)))"

definition Axes_set_ylim :: "real \<Rightarrow> real \<Rightarrow> pyval \<Rightarrow> unit py" where
  "Axes_set_ylim lo hi v = mpl (bind_py (the_axes v) (\<lambda>(a, ax).
       update_group sharey_group (sharey_group ax)
         (\<lambda>ax'. ax'\<lparr>ylim := (lo, hi), autoscaley_on := False\<rparr>)))"

text \<open>
  Fixed ticks widen the view interval so that it holds them, keeping an inverted axis
  inverted.
\<close>

definition list_min :: "real list \<Rightarrow> real" where
  "list_min xs = fold min (tl xs) (hd xs)"

definition list_max :: "real list \<Rightarrow> real" where
  "list_max xs = fold max (tl xs) (hd xs)"

definition widen :: "real list \<Rightarrow> real \<times> real \<Rightarrow> real \<times> real" where
  "widen ticks l =
     (if ticks = [] then l
      else if fst l < snd l
        then (min (list_min ticks) (fst l), max (list_max ticks) (snd l))
        else (max (list_max ticks) (fst l), min (list_min ticks) (snd l)))"

text \<open>
  Modelled from the spec: \<open>ax.set_xticks(ticks, minor=...)\<close>, which the sources only
  call. Ticks are "synchronized" (spec) within a sharing group: "fine tuning of the
  y-ticks, affects all shared axes" (line 186, said of the x ticks it sets). So the ticks
  are set for the whole x group of \<open>ax\<close>.
\<close>

definition Axes_set_xticks :: "bool \<Rightarrow> pyval \<Rightarrow> pyval \<Rightarrow> unit py" where
  "Axes_set_xticks minor v t = mpl (bind_py (the_axes v) (\<lambda>(a, ax).
       bind_py (deref t) (\<lambda>arr.
         update_group sharex_group (sharex_group ax)
           (\<lambda>ax'. if minor
              then ax'\<lparr>xlim := widen (as_float arr) (xlim ax'), xticks_minor := Some (as_float arr)\<rparr>
              else ax'\<lparr>xlim := widen (as_float arr) (xlim ax'), xticks := Some (as_float arr)\<rparr>))))"

definition Axes_set_xlabel :: "string \<Rightarrow> pyval \<Rightarrow> unit py" where
  "Axes_set_xlabel l v = mpl (bind_py (the_axes v) (\<lambda>(a, ax). update_axes a (\<lambda>ax'. ax'\<lparr>xlabel := l\<rparr>)))"

definition Axes_set_ylabel :: "string \<Rightarrow> pyval \<Rightarrow> unit py" where
  "Axes_set_ylabel l v = mpl (bind_py (the_axes v) (\<lambda>(a, ax). update_axes a (\<lambda>ax'. ax'\<lparr>ylabel := l\<rparr>)))"

text \<open>\<open>ax.tick_params(...)\<close> only restyles the ticks.\<close>

definition Axes_tick_params :: "pyval \<Rightarrow> unit py" where
  "Axes_tick_params v = mpl (bind_py (the_axes v) (\<lambda>_. ret ()))"

subsection \<open>matplotlib: artists\<close>

text \<open>
  \<open>ax.plot(x, y, label=...)\<close> reads both arrays and raises \<open>ValueError\<close> unless they have
  the same length; otherwise the axes gets one more line. The line keeps the addresses of
  its data and the cell that drew it.
\<close>

definition Axes_plot :: "pyval \<Rightarrow> pyval \<Rightarrow> pyval \<Rightarrow> pyval \<Rightarrow> unit py" where
  "Axes_plot v x y lbl = mpl (bind_py (the_axes v) (\<lambda>(a, ax).
       bind_py (deref x) (\<lambda>xa. bind_py (deref y) (\<lambda>ya.
         if len xa \<noteq> len ya then raise ValueError
         else case (x, y) of
             (Arr px, Arr py) \<Rightarrow> modify (\<lambda>s. s\<lparr>lines := lines s @
                 [\<lparr>l_axes = a, l_cell = cell s, xdata = px, ydata = py, l_label = lbl\<rparr>]\<rparr>)
           | _ \<Rightarrow> raise TypeError))))"

text \<open>
  The legend lists the labelled artists of the axes; an artist without a label, or with
  one that starts with an underscore, is left out.
\<close>

fun legend_label :: "pyval \<Rightarrow> string list" where
  "legend_label (PyStr l) = (if l = [] \<or> hd l = CHR ''_'' then [] else [l])"
| "legend_label _ = []"

definition legend_entries :: "state \<Rightarrow> nat \<Rightarrow> string list" where
  "legend_entries s a =
     concat (map (\<lambda>l. legend_label (l_label l)) (filter (\<lambda>l. l_axes l = a) (lines s))) @
     concat (map (\<lambda>b. legend_label (b_label b)) (filter (\<lambda>b. b_axes b = a) (bars s)))"

definition Axes_legend :: "pyval \<Rightarrow> unit py" where
  "Axes_legend v = mpl (bind_py (the_axes v) (\<lambda>(a, ax).
       bind_py (gets (\<lambda>s. legend_entries s a)) (\<lambda>ls.
         update_axes a (\<lambda>ax'. ax'\<lparr>legend := Some ls\<rparr>))))"

text \<open>
  The pyplot functions act on the current axes, which \<open>gca\<close> creates (with its figure, if
  there is none) when the current figure has no axes yet.
\<close>

definition gca :: "pyval py" where
  "gca s = (case cur_ax s of
       Some a \<Rightarrow> Inr (Axes a, s)
     | None \<Rightarrow>
         (case (case cur_fig s of Some f \<Rightarrow> Inr (f, s) | None \<Rightarrow> new_figure s) of
            Inl e \<Rightarrow> Inl e
          | Inr (f, s') \<Rightarrow>
              Inr (Axes (length (axs s')),
                s'\<lparr>axs := axs s' @ [new_axes f (length (axs s')) (length (axs s'))],
                   cur_ax := Some (length (axs s'))\<rparr>)))"

text \<open>
  Broadcasting of one-dimensional arrays: lengths other than 1 must agree, and an array
  of length 1 is repeated.
\<close>

definition broadcast_len :: "nat list \<Rightarrow> nat option" where
  "broadcast_len ns =
     (case filter (\<lambda>n. n \<noteq> 1) ns of
        [] \<Rightarrow> Some 1
      | m # ms \<Rightarrow> if list_all (\<lambda>n. n = m) ms then Some m else None)"

definition broadcast_to :: "nat \<Rightarrow> real list \<Rightarrow> real list" where
  "broadcast_to n xs = (if length xs = n then xs else replicate n (hd xs))"

text \<open>
  \<open>plt.bar(x, height, width=w, bottom=b, label=...)\<close>: one rectangle per category,
  centred on \<open>x\<close>, \<open>w\<close> wide, standing on \<open>b\<close> (on 0 without \<open>bottom\<close>) and \<open>height\<close> tall.
  Arrays that do not broadcast to one length raise \<open>ValueError\<close>.
\<close>

definition bar_patches :: "real \<Rightarrow> real list \<Rightarrow> real list \<Rightarrow> real list \<Rightarrow> rectangle list" where
  "bar_patches w xs hs bs =
     map (\<lambda>(x, h, b). \<lparr>rect_x = x - w / 2, rect_y = b, rect_width = w, rect_height = h\<rparr>)
       (zip xs (zip hs bs))"

definition rect_top :: "rectangle \<Rightarrow> real" where
  "rect_top r = rect_y r + rect_height r"

definition rect_right :: "rectangle \<Rightarrow> real" where
  "rect_right r = rect_x r + rect_width r"

definition plt_bar :: "real \<Rightarrow> pyval \<Rightarrow> pyval \<Rightarrow> pyval \<Rightarrow> pyval \<Rightarrow> unit py" where
  "plt_bar w lbl x h bottom = mpl (bind_py gca (\<lambda>v. bind_py (the_axes v) (\<lambda>(a, ax).
       bind_py (deref x) (\<lambda>xa. bind_py (deref h) (\<lambda>ha.
       bind_py (if bottom = PyNone then ret (FloatArr [0]) else deref bottom) (\<lambda>ba.
         case broadcast_len [len xa, len ha, len ba] of
           None \<Rightarrow> raise ValueError
         | Some n \<Rightarrow>
            (case (x, h) of
               (Arr px, Arr ph) \<Rightarrow> modify (\<lambda>s. s\<lparr>bars := bars s @
                 [\<lparr>b_axes = a, b_cell = cell s, b_x = px, b_height = ph,
                   b_bottom = (case bottom of Arr pb \<Rightarrow> Some pb | _ \<Rightarrow> None),
                   b_width = w, b_label = lbl,
                   patches = bar_patches w (broadcast_to n (as_float xa))
                     (broadcast_to n (as_float ha)) (broadcast_to n (as_float ba))\<rparr>]\<rparr>)
             | _ \<Rightarrow> raise TypeError)))))))"

definition plt_title :: "string \<Rightarrow> unit py" where
  "plt_title l = mpl (bind_py gca (\<lambda>v. bind_py (the_axes v) (\<lambda>(a, ax).
       update_axes a (\<lambda>ax'. ax'\<lparr>ax_title := l\<rparr>))))"

definition plt_xlabel :: "string \<Rightarrow> unit py" where
  "plt_xlabel l = mpl (bind_py gca (\<lambda>v. bind_py (the_axes v) (\<lambda>(a, ax).
       update_axes a (\<lambda>ax'. ax'\<lparr>xlabel := l\<rparr>))))"

definition plt_ylabel :: "string \<Rightarrow> unit py" where
  "plt_ylabel l = mpl (bind_py gca (\<lambda>v. bind_py (the_axes v) (\<lambda>(a, ax).
       update_axes a (\<lambda>ax'. ax'\<lparr>ylabel := l\<rparr>))))"

definition plt_legend :: "unit py" where
  "plt_legend = mpl (bind_py gca (\<lambda>v. bind_py (the_axes v) (\<lambda>(a, ax).
       bind_py (gets (\<lambda>s. legend_entries s a)) (\<lambda>ls.
         update_axes a (\<lambda>ax'. ax'\<lparr>legend := Some ls\<rparr>)))))"

text \<open>Rendering changes nothing the model keeps.\<close>

definition plt_show :: "unit py" where
  "plt_show = mpl (ret ())"

definition Figure_tight_layout :: "pyval \<Rightarrow> unit py" where
  "Figure_tight_layout v = mpl (case v of Fig f \<Rightarrow> ret () | _ \<Rightarrow> raise TypeError)"

definition Figure_suptitle :: "string \<Rightarrow> pyval \<Rightarrow> unit py" where
  "Figure_suptitle t v = mpl (case v of
       Fig f \<Rightarrow> modify (\<lambda>s. s\<lparr>figs := update_at f (\<lambda>g. g\<lparr>suptitle := Some t\<rparr>) (figs s)\<rparr>)
     | _ \<Rightarrow> raise TypeError)"

subsection \<open>Calls\<close>

text \<open>
  A call evaluates the receiver and the arguments from left to right, then runs the
  callee on their values.
\<close>

definition call1 :: "(pyval \<Rightarrow> 'a py) \<Rightarrow> pyval py \<Rightarrow> 'a py" where
  "call1 f e1 = bind_py e1 f"

definition call2 :: "(pyval \<Rightarrow> pyval \<Rightarrow> 'a py) \<Rightarrow> pyval py \<Rightarrow> pyval py \<Rightarrow> 'a py" where
  "call2 f e1 e2 = bind_py e1 (\<lambda>v1. bind_py e2 (f v1))"

definition call3 ::
  "(pyval \<Rightarrow> pyval \<Rightarrow> pyval \<Rightarrow> 'a py) \<Rightarrow> pyval py \<Rightarrow> pyval py \<Rightarrow> pyval py \<Rightarrow> 'a py" where
  "call3 f e1 e2 e3 = bind_py e1 (\<lambda>v1. bind_py e2 (\<lambda>v2. bind_py e3 (f v1 v2)))"

definition call4 ::
  "(pyval \<Rightarrow> pyval \<Rightarrow> pyval \<Rightarrow> pyval \<Rightarrow> 'a py) \<Rightarrow>
     pyval py \<Rightarrow> pyval py \<Rightarrow> pyval py \<Rightarrow> pyval py \<Rightarrow> 'a py" where
  "call4 f e1 e2 e3 e4 =
     bind_py e1 (\<lambda>v1. bind_py e2 (\<lambda>v2. bind_py e3 (\<lambda>v3. bind_py e4 (f v1 v2 v3))))"

text \<open>An expression statement drops the value.\<close>

definition expr_stmt :: "'a py \<Rightarrow> unit py" where
  "expr_stmt e = bind_py e (\<lambda>_. ret ())"

subsection \<open>The script\<close>

text \<open>
  \<^verbatim>\<open>
  def one_sub(ax, x, y, label):
      ax.plot(x, y, label=label)
      ax.legend()
      return
  \<close>
\<close>

definition one_sub :: "pyval \<Rightarrow> pyval \<Rightarrow> pyval \<Rightarrow> pyval \<Rightarrow> unit py" where
  "one_sub ax x y label = then_py (Axes_plot ax x y label) (Axes_legend ax)"

text \<open>Lines 29 to 34 and 45 to 49: a bare figure, closed again, and a 1x1 subplot.\<close>

definition cell19 :: "unit py list" where
  "cell19 =
    [In 19,
     assign ''fig'' plt_figure,
     plt_close]"

definition cell20 :: "unit py list" where
  "cell20 =
    [In 20,
     assign2 ''fig'' ''ax'' (plt_subplots 1 1 ShareNone ShareNone),
     plt_show]"

text \<open>Lines 60 to 102: the plot with two y axes.\<close>

definition cell21 :: "unit py list" where
  "cell21 =
    [In 21,
     assign ''x'' (np_linspace (-10) 10 1000),
     assign ''sinh'' (np_sinh (var ''x'')),
     assign ''sin'' (np_sin (var ''x'')),
     assign2 ''fig'' ''ax1'' (plt_subplots 1 1 ShareNone ShareNone),
     assign ''color'' (ret (PyStr ''red'')),
     call1 (Axes_set_xlabel ''x'') (var ''ax1''),
     call2 (\<lambda>ax c. Axes_set_ylabel ''sinh(x)'' ax) (var ''ax1'') (var ''color''),
     call4 (\<lambda>ax x y c. Axes_plot ax x y PyNone) (var ''ax1'') (var ''x'') (var ''sinh'') (var ''color''),
     call2 (\<lambda>ax c. Axes_tick_params ax) (var ''ax1'') (var ''color''),
     assign ''ax2'' (call1 Axes_twinx (var ''ax1'')),
     assign ''color'' (ret (PyStr ''blue'')),
     call2 (\<lambda>ax c. Axes_set_ylabel ''sin(x)'' ax) (var ''ax2'') (var ''color''),
     call3 (\<lambda>ax x y. Axes_plot ax x y PyNone) (var ''ax2'') (var ''x'') (var ''sin''),
     call2 (\<lambda>ax c. Axes_tick_params ax) (var ''ax2'') (var ''color''),
     call1 (Axes_set_ylim (-1) 1) (var ''ax2''),
     call1 Figure_tight_layout (var ''fig''),
     plt_show]"

text \<open>Lines 123 to 126 and 135 to 141: two plain 2x3 grids.\<close>

definition cell22 :: "unit py list" where
  "cell22 =
    [In 22,
     assign2 ''fig'' ''axes'' (plt_subplots 2 3 ShareNone ShareNone),
     call1 (Axes_set_xlim (-10) 10) (subscr2 (var ''axes'') (ret (PyInt 1)) (ret (PyInt 1))),
     plt_show]"

definition cell23 :: "unit py list" where
  "cell23 =
    [In 23,
     assign2 ''fig'' ''axes'' (plt_subplots 2 3 ShareNone ShareNone),
     assign ''ax_bl'' (subscr2 (var ''axes'') (ret (PyInt 1)) (ret (PyInt 0))),
     call1 (Axes_set_xlim (-10) 10) (var ''ax_bl''),
     call1 (Axes_set_ylim (-1.05) 1.05) (var ''ax_bl''),
     call3 (\<lambda>ax x y. Axes_plot ax x y PyNone) (var ''ax_bl'') (var ''x'') (var ''sin''),
     plt_show]"

text \<open>Lines 159 to 208: the 2x3 grid with shared axes.\<close>

definition plot_row :: "unit py" where
  "plot_row = for_in ''ix'' (py_range 3)
     (call4 one_sub
        (subscr2 (var ''axes'') (var ''iy'') (var ''ix''))
        (var ''x'')
        (subscr (subscr (var ''funcs'') (var ''iy'')) (var ''ix''))
        (subscr (subscr (var ''labels'') (var ''iy'')) (var ''ix'')))"

definition cell24 :: "unit py list" where
  "cell24 =
    [In 24,
     assign ''t'' (np_linspace (-10) 10 1000),
     assign ''sin'' (np_sin (var ''t'')),
     assign ''sinh'' (np_sinh (var ''t'')),
     assign ''cos'' (np_cos (var ''t'')),
     assign ''cosh'' (np_cosh (var ''t'')),
     assign ''tan'' (np_tan (var ''t'')),
     assign ''tanh'' (np_tanh (var ''t'')),
     assign ''funcs'' (py_list
       [py_list [var ''sinh'', var ''cosh'', var ''tanh''],
        py_list [var ''sin'', var ''cos'', var ''tan'']]),
     assign ''labels'' (py_list
       [py_list [ret (PyStr ''sinh''), ret (PyStr ''cosh''), ret (PyStr ''tanh'')],
        py_list [ret (PyStr ''sin''), ret (PyStr ''cos''), ret (PyStr ''tan'')]]),
     assign2 ''fig'' ''axes'' (plt_subplots 2 3 ShareAll ShareRow),
     call1 (Axes_set_xlim (-10) 10) (subscr2 (var ''axes'') (ret (PyInt 1)) (ret (PyInt 1))),
     call1 (Axes_set_ylim (-10000) 10000) (subscr2 (var ''axes'') (ret (PyInt 0)) (ret (PyInt 1))),
     call1 (Axes_set_ylim (-2) 2) (subscr2 (var ''axes'') (ret (PyInt 1)) (ret (PyInt 1))),
     call2 (Axes_set_xticks False)
       (subscr2 (var ''axes'') (ret (PyInt 0)) (ret (PyInt 0))) (np_arange (-10) 11 5),
     call2 (Axes_set_xticks True)
       (subscr2 (var ''axes'') (ret (PyInt 0)) (ret (PyInt 0))) (np_arange (-10) 11 1),
     assign ''iy'' (ret (PyInt 0)),
     plot_row,
     assign ''iy'' (ret (PyInt 1)),
     plot_row,
     call1 (Figure_suptitle ''hyberbolic and trigonometric functions'') (var ''fig''),
     call1 (Axes_set_xlabel ''x'') (subscr2 (var ''axes'') (ret (PyInt 1)) (ret (PyInt 0))),
     call1 (Axes_set_xlabel ''x'') (subscr2 (var ''axes'') (ret (PyInt 1)) (ret (PyInt 1))),
     call1 (Axes_set_xlabel ''x'') (subscr2 (var ''axes'') (ret (PyInt 1)) (ret (PyInt 2))),
     call1 (Axes_set_ylabel ''f(x)'') (subscr2 (var ''axes'') (ret (PyInt 1)) (ret (PyInt 0))),
     call1 (Axes_set_ylabel ''f(x)'') (subscr2 (var ''axes'') (ret (PyInt 0)) (ret (PyInt 0)))]"

text \<open>Lines 234 to 241: the population of London, as written and then in millions.\<close>

definition years_lit :: "int list" where
  "years_lit = [1801, 1851, 1901, 1951, 2001]"

definition inner_pop_lit :: "int list" where
  "inner_pop_lit = [879491, 1995846, 4670177, 3680821, 2765975]"

definition outer_pop_lit :: "int list" where
  "outer_pop_lit = [131666, 290763, 1556317, 4483595, 4406061]"

definition greater_pop_lit :: "int list" where
  "greater_pop_lit = [1011157, 2286609, 6226494, 8164416, 7172036]"

definition cell25 :: "unit py list" where
  "cell25 =
    [In 25,
     assign ''years'' (np_array years_lit),
     assign ''inner_pop'' (np_array inner_pop_lit),
     assign ''outer_pop'' (np_array outer_pop_lit),
     assign ''greater_pop'' (np_array greater_pop_lit),
     assign ''inner_pop'' (arr_div (var ''inner_pop'') 1000000),
     assign ''outer_pop'' (arr_div (var ''outer_pop'') 1000000)]"

text \<open>Lines 247 to 260: bars side by side.\<close>

definition cell26 :: "unit py list" where
  "cell26 =
    [In 26,
     expr_stmt plt_figure,
     assign ''iyears'' (arr_sub (var ''years'') 5),
     call2 (\<lambda>x h. plt_bar 7 (PyStr ''inner'') x h PyNone) (var ''iyears'') (var ''inner_pop''),
     assign ''oyears'' (arr_add (var ''years'') 5),
     call2 (\<lambda>x h. plt_bar 7 (PyStr ''outer'') x h PyNone) (var ''oyears'') (var ''outer_pop''),
     plt_title ''Population of London'',
     plt_xlabel ''year'',
     plt_ylabel ''population (millions)'',
     plt_legend,
     plt_show]"

text \<open>Lines 271 to 282: bars stacked.\<close>

definition cell27 :: "unit py list" where
  "cell27 =
    [In 27,
     expr_stmt plt_figure,
     call2 (\<lambda>x h. plt_bar 10 (PyStr ''inner'') x h PyNone) (var ''years'') (var ''inner_pop''),
     call3 (plt_bar 10 (PyStr ''outer'')) (var ''years'') (var ''outer_pop'') (var ''inner_pop''),
     plt_title ''Population of London'',
     plt_xlabel ''year'',
     plt_ylabel ''population (millions)'',
     plt_legend,
     plt_show]"

definition script :: "unit py list" where
  "script = cell19 @ cell20 @ cell21 @ cell22 @ cell23 @ cell24 @ cell25 @ cell26 @ cell27"

subsection \<open>The state the script ends in\<close>

text \<open>
  With a library that raises nothing unplanned, the script runs to its end. The state it
  reaches is written out here and proved to be the result of the run below.
\<close>

definition samples :: "real list" where
  "samples = linspace (-10) 10 1000"

definition millions :: "int list \<Rightarrow> real list" where
  "millions xs = map (\<lambda>v. v / 1000000) (map real_of_int xs)"

definition final_env :: "(string \<times> pyval) list" where
  "final_env =
    [(''fig'', Fig 5), (''ax'', Axes 0), (''x'', Arr 0), (''sinh'', Arr 5), (''sin'', Arr 4),
     (''ax1'', Axes 1), (''color'', PyStr ''blue''), (''ax2'', Axes 2),
     (''axes'', PyList [PyList [Axes 15, Axes 16, Axes 17], PyList [Axes 18, Axes 19, Axes 20]]),
     (''ax_bl'', Axes 12), (''t'', Arr 3), (''cos'', Arr 6), (''cosh'', Arr 7),
     (''tan'', Arr 8), (''tanh'', Arr 9),
     (''funcs'', PyList [PyList [Arr 5, Arr 7, Arr 9], PyList [Arr 4, Arr 6, Arr 8]]),
     (''labels'', PyList [PyList [PyStr ''sinh'', PyStr ''cosh'', PyStr ''tanh''],
                          PyList [PyStr ''sin'', PyStr ''cos'', PyStr ''tan'']]),
     (''iy'', PyInt 1), (''ix'', PyInt 2), (''years'', Arr 12), (''inner_pop'', Arr 16),
     (''outer_pop'', Arr 17), (''greater_pop'', Arr 15), (''iyears'', Arr 18),
     (''oyears'', Arr 19)]"

definition final_heap :: "array_obj list" where
  "final_heap =
    [\<lparr>created_in = 21, contents = FloatArr samples\<rparr>,
     \<lparr>created_in = 21, contents = FloatArr (map sinh samples)\<rparr>,
     \<lparr>created_in = 21, contents = FloatArr (map sin samples)\<rparr>,
     \<lparr>created_in = 24, contents = FloatArr samples\<rparr>,
     \<lparr>created_in = 24, contents = FloatArr (map sin samples)\<rparr>,
     \<lparr>created_in = 24, contents = FloatArr (map sinh samples)\<rparr>,
     \<lparr>created_in = 24, contents = FloatArr (map cos samples)\<rparr>,
     \<lparr>created_in = 24, contents = FloatArr (map cosh samples)\<rparr>,
     \<lparr>created_in = 24, contents = FloatArr (map tan samples)\<rparr>,
     \<lparr>created_in = 24, contents = FloatArr (map tanh samples)\<rparr>,
     \<lparr>created_in = 24, contents = IntArr (arange (-10) 11 5)\<rparr>,
     \<lparr>created_in = 24, contents = IntArr (arange (-10) 11 1)\<rparr>,
     \<lparr>created_in = 25, contents = IntArr years_lit\<rparr>,
     \<lparr>created_in = 25, contents = IntArr inner_pop_lit\<rparr>,
     \<lparr>created_in = 25, contents = IntArr outer_pop_lit\<rparr>,
     \<lparr>created_in = 25, contents = IntArr greater_pop_lit\<rparr>,
     \<lparr>created_in = 25, contents = FloatArr (millions inner_pop_lit)\<rparr>,
     \<lparr>created_in = 25, contents = FloatArr (millions outer_pop_lit)\<rparr>,
     \<lparr>created_in = 26, contents = FloatArr (map (\<lambda>v. v - 5) (map real_of_int years_lit))\<rparr>,
     \<lparr>created_in = 26, contents = FloatArr (map (\<lambda>v. v + 5) (map real_of_int years_lit))\<rparr>]"

text \<open>An axes of the shared grid of cell 24, by its y group, y limits, labels and legend.\<close>

definition shared_axes :: "nat \<Rightarrow> real \<times> real \<Rightarrow> string \<Rightarrow> string \<Rightarrow> string \<Rightarrow> axes_obj" where
  "shared_axes gy yl xl yla lg = (new_axes 5 15 gy)
     \<lparr>xlim := (-10, 10), ylim := yl, autoscalex_on := False, autoscaley_on := False,
      xticks := Some (map real_of_int (arange (-10) 11 5)),
      xticks_minor := Some (map real_of_int (arange (-10) 11 1)),
      xlabel := xl, ylabel := yla, legend := Some [lg]\<rparr>"

definition final_axs :: "axes_obj list" where
  "final_axs =
    [new_axes 1 0 0,
     (new_axes 2 1 1)\<lparr>xlabel := ''x'', ylabel := ''sinh(x)''\<rparr>,
     (new_axes 2 1 2)\<lparr>ylim := (-1, 1), autoscaley_on := False, ylabel := ''sin(x)''\<rparr>,
     new_axes 3 3 3, new_axes 3 4 4, new_axes 3 5 5, new_axes 3 6 6,
     (new_axes 3 7 7)\<lparr>xlim := (-10, 10), autoscalex_on := False\<rparr>,
     new_axes 3 8 8,
     new_axes 4 9 9, new_axes 4 10 10, new_axes 4 11 11,
     (new_axes 4 12 12)\<lparr>xlim := (-10, 10), ylim := (-1.05, 1.05),
        autoscalex_on := False, autoscaley_on := False\<rparr>,
     new_axes 4 13 13, new_axes 4 14 14,
     shared_axes 15 (-10000, 10000) [] ''f(x)'' ''sinh'',
     shared_axes 15 (-10000, 10000) [] [] ''cosh'',
     shared_axes 15 (-10000, 10000) [] [] ''tanh'',
     shared_axes 18 (-2, 2) ''x'' ''f(x)'' ''sin'',
     shared_axes 18 (-2, 2) ''x'' [] ''cos'',
     shared_axes 18 (-2, 2) ''x'' [] ''tan'',
     (new_axes 6 21 21)\<lparr>xlabel := ''year'', ylabel := ''population (millions)'',
        ax_title := ''Population of London'', legend := Some [''inner'', ''outer'']\<rparr>,
     (new_axes 7 22 22)\<lparr>xlabel := ''year'', ylabel := ''population (millions)'',
        ax_title := ''Population of London'', legend := Some [''inner'', ''outer'']\<rparr>]"

definition final_figs :: "figure_obj list" where
  "final_figs =
    [\<lparr>closed = True, suptitle = None\<rparr>,
     \<lparr>closed = False, suptitle = None\<rparr>,
     \<lparr>closed = False, suptitle = None\<rparr>,
     \<lparr>closed = False, suptitle = None\<rparr>,
     \<lparr>closed = False, suptitle = None\<rparr>,
     \<lparr>closed = False, suptitle = Some ''hyberbolic and trigonometric functions''\<rparr>,
     \<lparr>closed = False, suptitle = None\<rparr>,
     \<lparr>closed = False, suptitle = None\<rparr>]"

definition final_lines :: "line2d list" where
  "final_lines =
    [\<lparr>l_axes = 1, l_cell = 21, xdata = 0, ydata = 1, l_label = PyNone\<rparr>,
     \<lparr>l_axes = 2, l_cell = 21, xdata = 0, ydata = 2, l_label = PyNone\<rparr>,
     \<lparr>l_axes = 12, l_cell = 23, xdata = 0, ydata = 2, l_label = PyNone\<rparr>,
     \<lparr>l_axes = 15, l_cell = 24, xdata = 0, ydata = 5, l_label = PyStr ''sinh''\<rparr>,
     \<lparr>l_axes = 16, l_cell = 24, xdata = 0, ydata = 7, l_label = PyStr ''cosh''\<rparr>,
     \<lparr>l_axes = 17, l_cell = 24, xdata = 0, ydata = 9, l_label = PyStr ''tanh''\<rparr>,
     \<lparr>l_axes = 18, l_cell = 24, xdata = 0, ydata = 4, l_label = PyStr ''sin''\<rparr>,
     \<lparr>l_axes = 19, l_cell = 24, xdata = 0, ydata = 6, l_label = PyStr ''cos''\<rparr>,
     \<lparr>l_axes = 20, l_cell = 24, xdata = 0, ydata = 8, l_label = PyStr ''tan''\<rparr>]"

definition final_bars :: "bar_container list" where
  "final_bars =
    [\<lparr>b_axes = 21, b_cell = 26, b_x = 18, b_height = 16, b_bottom = None, b_width = 7,
      b_label = PyStr ''inner'',
      patches = bar_patches 7 (map (\<lambda>v. v - 5) (map real_of_int years_lit))
                  (millions inner_pop_lit) [0, 0, 0, 0, 0]\<rparr>,
     \<lparr>b_axes = 21, b_cell = 26, b_x = 19, b_height = 17, b_bottom = None, b_width = 7,
      b_label = PyStr ''outer'',
      patches = bar_patches 7 (map (\<lambda>v. v + 5) (map real_of_int years_lit))
                  (millions outer_pop_lit) [0, 0, 0, 0, 0]\<rparr>,
     \<lparr>b_axes = 22, b_cell = 27, b_x = 12, b_height = 16, b_bottom = None, b_width = 10,
      b_label = PyStr ''inner'',
      patches = bar_patches 10 (map real_of_int years_lit)
                  (millions inner_pop_lit) [0, 0, 0, 0, 0]\<rparr>,
     \<lparr>b_axes = 22, b_cell = 27, b_x = 12, b_height = 17, b_bottom = Some 16, b_width = 10,
      b_label = PyStr ''outer'',
      patches = bar_patches 10 (map real_of_int years_lit)
                  (millions outer_pop_lit) (millions inner_pop_lit)\<rparr>]"

definition final_reads :: "(nat \<times> nat) list" where
  "final_reads =
    [(21, 0), (21, 0), (21, 0), (21, 1), (21, 0), (21, 2),
     (23, 0), (23, 2),
     (24, 3), (24, 3), (24, 3), (24, 3), (24, 3), (24, 3), (24, 10), (24, 11),
     (24, 0), (24, 5), (24, 0), (24, 7), (24, 0), (24, 9),
     (24, 0), (24, 4), (24, 0), (24, 6), (24, 0), (24, 8),
     (25, 13), (25, 14),
     (26, 12), (26, 18), (26, 16), (26, 12), (26, 19), (26, 17),
     (27, 12), (27, 16), (27, 12), (27, 17), (27, 16)]"

definition final :: state where
  "final = \<lparr> cell = 27, env = final_env, heap = final_heap, axs = final_axs,
      figs = final_figs, cur_fig = Some 7, cur_ax = Some 22, lines = final_lines,
      bars = final_bars, reads = final_reads, calls = 64, fault = None \<rparr>"

subsection \<open>Reading the state\<close>

text \<open>The values of the array a name is bound to; empty when the name holds no array.\<close>

definition array_of :: "state \<Rightarrow> string \<Rightarrow> real list" where
  "array_of s n = (case map_of (env s) n of
       Some (Arr a) \<Rightarrow> as_float (contents (heap s ! a))
     | _ \<Rightarrow> [])"

text \<open>
  The function sampled for the cell in row \<open>iy\<close> and column \<open>ix\<close> of the shared grid:
  \<open>funcs = [[sinh, cosh, tanh], [sin, cos, tan]]\<close>, each of them the numpy function of its
  name applied to \<open>t\<close> (lines 160 to 168).
\<close>

definition grid_fn :: "nat \<Rightarrow> nat \<Rightarrow> real \<Rightarrow> real" where
  "grid_fn iy ix = [[sinh, cosh, tanh], [sin, cos, tan]] ! iy ! ix"

text \<open>The expressions \<open>axes[iy, ix]\<close>, \<open>funcs[iy][ix]\<close> and \<open>labels[iy][ix]\<close> of the loop body.\<close>

definition axes_at :: "nat \<Rightarrow> nat \<Rightarrow> pyval py" where
  "axes_at iy ix = subscr2 (var ''axes'') (ret (PyInt (int iy))) (ret (PyInt (int ix)))"

definition funcs_at :: "nat \<Rightarrow> nat \<Rightarrow> pyval py" where
  "funcs_at iy ix = subscr (subscr (var ''funcs'') (ret (PyInt (int iy)))) (ret (PyInt (int ix)))"

definition labels_at :: "nat \<Rightarrow> nat \<Rightarrow> pyval py" where
  "labels_at iy ix = subscr (subscr (var ''labels'') (ret (PyInt (int iy)))) (ret (PyInt (int ix)))"

subsection \<open>The state around \<open>ax2.set_ylim\<close>\<close>

text \<open>
  The state the script is in just before line 93, \<open>ax2.set_ylim(-1.0, 1.0)\<close>, and just
  after it: the figure of cell 21 has the axes 1 (\<open>ax1\<close>) and 2 (\<open>ax2\<close>).
\<close>

definition before_set_ylim :: state where
  "before_set_ylim = \<lparr> cell = 21,
      env = [(''fig'', Fig 2), (''ax'', Axes 0), (''x'', Arr 0), (''sinh'', Arr 1),
             (''sin'', Arr 2), (''ax1'', Axes 1), (''color'', PyStr ''blue''), (''ax2'', Axes 2)],
      heap = take 3 final_heap,
      axs = [new_axes 1 0 0,
             (new_axes 2 1 1)\<lparr>xlabel := ''x'', ylabel := ''sinh(x)''\<rparr>,
             (new_axes 2 1 2)\<lparr>ylabel := ''sin(x)''\<rparr>],
      figs = [\<lparr>closed = True, suptitle = None\<rparr>, \<lparr>closed = False, suptitle = None\<rparr>,
              \<lparr>closed = False, suptitle = None\<rparr>],
      cur_fig = Some 2, cur_ax = Some 2,
      lines = take 2 final_lines, bars = [], reads = take 6 final_reads,
      calls = 13, fault = None \<rparr>"

definition after_set_ylim :: state where
  "after_set_ylim = before_set_ylim
     \<lparr> axs := [new_axes 1 0 0,
               (new_axes 2 1 1)\<lparr>xlabel := ''x'', ylabel := ''sinh(x)''\<rparr>,
               (new_axes 2 1 2)\<lparr>ylim := (-1, 1), autoscaley_on := False, ylabel := ''sin(x)''\<rparr>],
       calls := 14 \<rparr>"

subsection \<open>Properties of computations\<close>

text \<open>A list of statements run as one statement.\<close>

definition block :: "unit py list \<Rightarrow> unit py" where
  "block cs s = (case exec cs s of Inl e \<Rightarrow> Inl e | Inr s' \<Rightarrow> Inr ((), s'))"

text \<open>
  A computation only appends to the store: whenever it returns, the arrays that were in the
  store before are still there, at their addresses and with their contents.
\<close>

definition heap_grows :: "'a py \<Rightarrow> bool" where
  "heap_grows m \<longleftrightarrow> (\<forall>s v s'. m s = Inr (v, s') \<longrightarrow>
     length (heap s) \<le> length (heap s') \<and> take (length (heap s)) (heap s') = heap s)"

text \<open>
  A computation lets the planned exception of the library through. Whenever it returns
  under a plan, it has made no fewer calls than before and left the plan alone. And when it
  returns with no failure planned, having started at or before call \<open>k\<close>, then with \<open>e\<close>
  planned for call \<open>k\<close> it returns the same value in the same state if it stayed at or
  before call \<open>k\<close>, and raises \<open>e\<close> if it went past it.
\<close>

definition propagates :: "nat \<Rightarrow> error \<Rightarrow> 'a py \<Rightarrow> bool" where
  "propagates k e m \<longleftrightarrow> (\<forall>s v s'. m s = Inr (v, s') \<longrightarrow>
     calls s \<le> calls s' \<and> fault s' = fault s \<and>
     (fault s = None \<and> calls s \<le> k \<longrightarrow>
        m (s\<lparr>fault := Some (k, e)\<rparr>) =
          (if calls s' \<le> k then Inr (v, s'\<lparr>fault := Some (k, e)\<rparr>) else Inl e)))"

text \<open>
  The four examples of the notebook, by its headings: two y axes (line 17, cells up to 21),
  fine tuning multiple subplots (line 114, cells 22 to 24), bars side by side (line 219,
  cells 25 and 26) and stacked bars (line 263, cell 27). \<open>cross_reads\<close> are the logged reads
  of an array by a cell of another example than the one that created it.
\<close>

datatype example = TwoAxes | SubplotGrids | BarsSideBySide | BarsStacked

definition example_of :: "nat \<Rightarrow> example" where
  "example_of c =
     (if c \<le> 21 then TwoAxes
      else if c \<le> 24 then SubplotGrids
      else if c \<le> 26 then BarsSideBySide
      else BarsStacked)"

definition cross_reads :: "state \<Rightarrow> (nat \<times> nat) list" where
  "cross_reads s =
     filter (\<lambda>(c, a). example_of c \<noteq> example_of (created_in (heap s ! a))) (reads s)"

definition scoped :: "state \<Rightarrow> bool" where
  "scoped s \<longleftrightarrow> cross_reads s = []"

section \<open>Running the script\<close>

lemmas py_defs = ret_def raise_def bind_py_def then_py_def modify_def gets_def In_def var_def assign_def
  assign2_def py_index_def subscr_def subscr2_def py_list_def py_range_def alloc_def deref_def
  np_linspace_def np_arange_def np_array_def ufunc_def np_sin_def np_cos_def np_tan_def
  np_sinh_def np_cosh_def np_tanh_def arr_div_def arr_sub_def arr_add_def
  mpl_def new_axes_def new_figure_def plt_figure_def plt_close_def axes_grid_def
  plt_subplots_def grid_axes_def the_axes_def update_axes_def update_group_def Axes_twinx_def
  Axes_set_xlim_def Axes_set_ylim_def widen_def list_min_def list_max_def Axes_set_xticks_def
  Axes_set_xlabel_def Axes_set_ylabel_def Axes_tick_params_def Axes_plot_def
  legend_entries_def Axes_legend_def gca_def broadcast_len_def broadcast_to_def
  plt_bar_def plt_title_def plt_xlabel_def plt_ylabel_def plt_legend_def plt_show_def
  Figure_tight_layout_def Figure_suptitle_def call1_def call2_def call3_def call4_def
  one_sub_def plot_row_def arange_def Let_def init_def expr_stmt_def upt_rec update_at_def

lemmas cell_defs = script_def cell19_def cell20_def cell21_def cell22_def cell23_def
  cell24_def cell25_def cell26_def cell27_def
  years_lit_def inner_pop_lit_def outer_pop_lit_def greater_pop_lit_def

lemmas final_defs = final_def final_env_def final_heap_def final_axs_def final_figs_def
  final_lines_def final_bars_def final_reads_def shared_axes_def samples_def millions_def

lemma length_linspace [simp]: "length (linspace a b n) = n"
  by (simp add: linspace_def)

text \<open>The run of the whole script, with nothing raised by the library.\<close>

lemma run_script: "exec script (init None) = Inr final"
  by (simp add: py_defs cell_defs final_defs)

lemma final_simps [simp]:
  "cell final = 27" "env final = final_env" "heap final = final_heap" "axs final = final_axs"
  "figs final = final_figs" "lines final = final_lines" "bars final = final_bars"
  "reads final = final_reads" "calls final = 64" "fault final = None"
  by (simp_all add: final_def)

lemma less_2_cases: "i < 2 \<Longrightarrow> i = 0 \<or> (i::nat) = 1"
  by arith

lemma less_3_cases: "i < 3 \<Longrightarrow> i = 0 \<or> i = 1 \<or> (i::nat) = 2"
  by arith

lemma less_5_cases: "i < 5 \<Longrightarrow> i = 0 \<or> i = 1 \<or> i = 2 \<or> i = 3 \<or> (i::nat) = 4"
  by arith

lemma array_of_final:
  "array_of final ''x'' = samples"
  "array_of final ''t'' = samples"
  "array_of final ''years'' = map real_of_int years_lit"
  "array_of final ''inner_pop'' = millions inner_pop_lit"
  "array_of final ''outer_pop'' = millions outer_pop_lit"
  by (simp_all add: array_of_def final_env_def final_heap_def)

section \<open>The bar charts\<close>

text \<open>
  Claim C1. In the stacked chart of cell 27 the second series, labelled \<open>outer\<close>, is drawn
  with \<open>bottom=inner_pop\<close>: at every one of the five years its bar stands on the value of
  \<open>inner_pop\<close> (in millions) and reaches up to \<open>inner_pop + outer_pop\<close>, on the same axes
  and at the same place as the \<open>inner\<close> bar, which stands on 0 and ends where the \<open>outer\<close>
  bar begins.
\<close>

theorem stacked_bar_baseline:
  "i < 5 \<Longrightarrow>
     exec script (init None) = Inr final \<and>
     map_of (env final) ''inner_pop'' = Some (Arr 16) \<and>
     b_label (bars final ! 2) = PyStr ''inner'' \<and> b_bottom (bars final ! 2) = None \<and>
     b_label (bars final ! 3) = PyStr ''outer'' \<and> b_bottom (bars final ! 3) = Some 16 \<and>
     b_axes (bars final ! 3) = b_axes (bars final ! 2) \<and>
     rect_x (patches (bars final ! 3) ! i) = rect_x (patches (bars final ! 2) ! i) \<and>
     rect_y (patches (bars final ! 2) ! i) = 0 \<and>
     rect_top (patches (bars final ! 2) ! i) = array_of final ''inner_pop'' ! i \<and>
     rect_y (patches (bars final ! 3) ! i) = array_of final ''inner_pop'' ! i \<and>
     rect_top (patches (bars final ! 3) ! i) =
       array_of final ''inner_pop'' ! i + array_of final ''outer_pop'' ! i"
proof -
  assume "i < 5"
  then have c: "i = 0 \<or> i = 1 \<or> i = 2 \<or> i = 3 \<or> i = 4" by (rule less_5_cases)
  have store: "map_of (env final) ''inner_pop'' = Some (Arr 16)"
    by (simp add: final_env_def)
  have series: "b_label (bars final ! 2) = PyStr ''inner''" "b_bottom (bars final ! 2) = None"
    "b_label (bars final ! 3) = PyStr ''outer''" "b_bottom (bars final ! 3) = Some 16"
    "b_axes (bars final ! 3) = b_axes (bars final ! 2)"
    by (simp_all add: final_bars_def)
  have rects: "rect_x (patches (bars final ! 3) ! i) = rect_x (patches (bars final ! 2) ! i)"
    "rect_y (patches (bars final ! 2) ! i) = 0"
    "rect_top (patches (bars final ! 2) ! i) = array_of final ''inner_pop'' ! i"
    "rect_y (patches (bars final ! 3) ! i) = array_of final ''inner_pop'' ! i"
    "rect_top (patches (bars final ! 3) ! i) =
       array_of final ''inner_pop'' ! i + array_of final ''outer_pop'' ! i"
    using c by (auto simp: array_of_final final_bars_def bar_patches_def rect_top_def
        millions_def years_lit_def inner_pop_lit_def outer_pop_lit_def)
  show ?thesis using run_script store series rects by simp
qed

theorem stacked_bar_baseline_witness:
  "(0::nat) < 5 \<and> rect_y (patches (bars final ! 3) ! 0) = 879491 / 1000000 \<and>
   rect_top (patches (bars final ! 3) ! 0) = 1011157 / 1000000"
  using stacked_bar_baseline [of 0]
  by (simp add: array_of_final millions_def inner_pop_lit_def outer_pop_lit_def)

text \<open>
  Claim C2. In the grouped chart of cell 26 the two series are centred on \<open>years - 5\<close> and
  \<open>years + 5\<close> and are 7 wide: at every year the \<open>inner\<close> bar covers
  \<open>[year - 5 - 3.5, year - 5 + 3.5]\<close>, the \<open>outer\<close> bar covers
  \<open>[year + 5 - 3.5, year + 5 + 3.5]\<close>, and the two intervals are disjoint.
\<close>

theorem grouped_bars_disjoint:
  "i < 5 \<Longrightarrow>
     exec script (init None) = Inr final \<and>
     b_label (bars final ! 0) = PyStr ''inner'' \<and> b_label (bars final ! 1) = PyStr ''outer'' \<and>
     b_axes (bars final ! 0) = b_axes (bars final ! 1) \<and>
     b_width (bars final ! 0) = 7 \<and> b_width (bars final ! 1) = 7 \<and>
     rect_x (patches (bars final ! 0) ! i) = array_of final ''years'' ! i - 5 - 3.5 \<and>
     rect_right (patches (bars final ! 0) ! i) = array_of final ''years'' ! i - 5 + 3.5 \<and>
     rect_x (patches (bars final ! 1) ! i) = array_of final ''years'' ! i + 5 - 3.5 \<and>
     rect_right (patches (bars final ! 1) ! i) = array_of final ''years'' ! i + 5 + 3.5 \<and>
     {rect_x (patches (bars final ! 0) ! i) .. rect_right (patches (bars final ! 0) ! i)} \<inter>
     {rect_x (patches (bars final ! 1) ! i) .. rect_right (patches (bars final ! 1) ! i)} = {}"
proof -
  assume "i < 5"
  then have c: "i = 0 \<or> i = 1 \<or> i = 2 \<or> i = 3 \<or> i = 4" by (rule less_5_cases)
  have series: "b_label (bars final ! 0) = PyStr ''inner''" "b_label (bars final ! 1) = PyStr ''outer''"
    "b_axes (bars final ! 0) = b_axes (bars final ! 1)"
    "b_width (bars final ! 0) = 7" "b_width (bars final ! 1) = 7"
    by (simp_all add: final_bars_def)
  have edges: "rect_x (patches (bars final ! 0) ! i) = array_of final ''years'' ! i - 5 - 3.5"
    "rect_right (patches (bars final ! 0) ! i) = array_of final ''years'' ! i - 5 + 3.5"
    "rect_x (patches (bars final ! 1) ! i) = array_of final ''years'' ! i + 5 - 3.5"
    "rect_right (patches (bars final ! 1) ! i) = array_of final ''years'' ! i + 5 + 3.5"
    using c by (auto simp: array_of_final final_bars_def bar_patches_def rect_right_def
        millions_def years_lit_def inner_pop_lit_def outer_pop_lit_def)
  have "rect_right (patches (bars final ! 0) ! i) < rect_x (patches (bars final ! 1) ! i)"
    unfolding edges by simp
  then have apart: "{rect_x (patches (bars final ! 0) ! i) .. rect_right (patches (bars final ! 0) ! i)} \<inter>
     {rect_x (patches (bars final ! 1) ! i) .. rect_right (patches (bars final ! 1) ! i)} = {}"
    by auto
  show ?thesis using run_script series edges apart by simp
qed

theorem grouped_bars_disjoint_witness:
  "(0::nat) < 5 \<and> rect_x (patches (bars final ! 0) ! 0) = 1792.5 \<and>
   rect_right (patches (bars final ! 0) ! 0) = 1799.5 \<and>
   rect_x (patches (bars final ! 1) ! 0) = 1802.5 \<and>
   rect_right (patches (bars final ! 1) ! 0) = 1809.5"
  using grouped_bars_disjoint [of 0]
  by (simp add: array_of_final years_lit_def)

text \<open>
  Claim C9. The literal population arrays of cell 25 add up: at every index the entry of
  \<open>greater_pop\<close> is the sum of the entries of \<open>inner_pop\<close> and \<open>outer_pop\<close> as written.
  At the end of the run \<open>greater_pop\<close> still holds its literal integers, and no numpy or
  plotting call has read it: it is neither rescaled nor plotted.
\<close>

theorem london_greater_pop_sum:
  "i < length greater_pop_lit \<Longrightarrow>
     length inner_pop_lit = length greater_pop_lit \<and>
     length outer_pop_lit = length greater_pop_lit \<and>
     greater_pop_lit ! i = inner_pop_lit ! i + outer_pop_lit ! i \<and>
     exec script (init None) = Inr final \<and>
     map_of (env final) ''greater_pop'' = Some (Arr 15) \<and>
     contents (heap final ! 15) = IntArr greater_pop_lit \<and>
     15 \<notin> snd ` set (reads final)"
proof -
  assume "i < length greater_pop_lit"
  then have "i < 5" by (simp add: greater_pop_lit_def)
  then have c: "i = 0 \<or> i = 1 \<or> i = 2 \<or> i = 3 \<or> i = 4" by (rule less_5_cases)
  have sums: "greater_pop_lit ! i = inner_pop_lit ! i + outer_pop_lit ! i"
    using c by (auto simp: greater_pop_lit_def inner_pop_lit_def outer_pop_lit_def)
  have lens: "length inner_pop_lit = length greater_pop_lit"
    "length outer_pop_lit = length greater_pop_lit"
    by (simp_all add: greater_pop_lit_def inner_pop_lit_def outer_pop_lit_def)
  have store: "map_of (env final) ''greater_pop'' = Some (Arr 15)"
    "contents (heap final ! 15) = IntArr greater_pop_lit"
    "15 \<notin> snd ` set (reads final)"
    by (simp_all add: final_env_def final_heap_def final_reads_def)
  show ?thesis using sums lens store run_script by simp
qed

theorem london_greater_pop_sum_witness:
  "(2::nat) < length greater_pop_lit \<and> greater_pop_lit ! 2 = inner_pop_lit ! 2 + outer_pop_lit ! 2 \<and> greater_pop_lit ! 2 = 6226494"
  using london_greater_pop_sum [of 2] by (simp add: greater_pop_lit_def)


section \<open>Lengths of paired data\<close>

text \<open>
  Claim C7. The run with a library that raises only on mismatched lengths ends normally,
  so no \<open>plot\<close> or \<open>bar\<close> call has taken the \<open>ValueError\<close> branch. The nine \<open>plot\<close>
  calls each paired two arrays of 1000 samples, and the four \<open>bar\<close> calls each paired
  arrays of 5 entries (the \<open>bottom\<close> array of the stacked series too).
\<close>

theorem paired_arrays_match:
  "exec script (init None) = Inr final \<and>
   length (lines final) = 9 \<and> length (bars final) = 4 \<and>
   list_all (\<lambda>l. len (contents (heap final ! xdata l)) = 1000 \<and>
                  len (contents (heap final ! ydata l)) = 1000) (lines final) \<and>
   list_all (\<lambda>b. len (contents (heap final ! b_x b)) = 5 \<and>
                  len (contents (heap final ! b_height b)) = 5 \<and>
                  (case b_bottom b of None \<Rightarrow> True
                   | Some p \<Rightarrow> len (contents (heap final ! p)) = 5)) (bars final)"
  using run_script
  by (simp add: final_lines_def final_bars_def final_heap_def samples_def millions_def
      years_lit_def inner_pop_lit_def outer_pop_lit_def)

section \<open>The grid with shared axes\<close>

lemmas subscr_defs = axes_at_def funcs_at_def labels_at_def subscr2_def subscr_def var_def
  ret_def raise_def bind_py_def py_index_def Let_def

lemma axes_at_final:
  "axes_at 0 0 final = Inr (Axes 15, final)" "axes_at 0 (Suc 0) final = Inr (Axes 16, final)"
  "axes_at 0 2 final = Inr (Axes 17, final)" "axes_at (Suc 0) 0 final = Inr (Axes 18, final)"
  "axes_at (Suc 0) (Suc 0) final = Inr (Axes 19, final)" "axes_at (Suc 0) 2 final = Inr (Axes 20, final)"
  by (simp_all add: subscr_defs final_env_def)

lemma funcs_at_final:
  "funcs_at 0 0 final = Inr (Arr 5, final)" "funcs_at 0 (Suc 0) final = Inr (Arr 7, final)"
  "funcs_at 0 2 final = Inr (Arr 9, final)" "funcs_at (Suc 0) 0 final = Inr (Arr 4, final)"
  "funcs_at (Suc 0) (Suc 0) final = Inr (Arr 6, final)" "funcs_at (Suc 0) 2 final = Inr (Arr 8, final)"
  by (simp_all add: subscr_defs final_env_def)

lemma labels_at_final:
  "labels_at 0 0 final = Inr (PyStr ''sinh'', final)" "labels_at 0 (Suc 0) final = Inr (PyStr ''cosh'', final)"
  "labels_at 0 2 final = Inr (PyStr ''tanh'', final)" "labels_at (Suc 0) 0 final = Inr (PyStr ''sin'', final)"
  "labels_at (Suc 0) (Suc 0) final = Inr (PyStr ''cos'', final)" "labels_at (Suc 0) 2 final = Inr (PyStr ''tan'', final)"
  by (simp_all add: subscr_defs final_env_def)

text \<open>
  Claim C3. The figure of cell 24 has six axes, the 2x3 grid bound to \<open>axes\<close>. For every
  row \<open>iy\<close> and column \<open>ix\<close>, the axes \<open>axes[iy, ix]\<close> carries exactly one line and no
  bars at the end of the run: the line drawn in cell 24 from \<open>x\<close> and \<open>funcs[iy][ix]\<close>
  with the label \<open>labels[iy][ix]\<close>, and its legend lists that label alone. The helper
  \<open>one_sub\<close> is a \<open>plot\<close> followed by a \<open>legend\<close> and nothing else.
\<close>

theorem grid_cells_populated_once:
  "iy < 2 \<Longrightarrow> ix < 3 \<Longrightarrow>
     exec script (init None) = Inr final \<and>
     length (filter (\<lambda>ax. figure_of ax = 5) (axs final)) = 6 \<and>
     map_of (env final) ''x'' = Some (Arr 0) \<and>
     (\<forall>ax x y l. one_sub ax x y l = then_py (Axes_plot ax x y l) (Axes_legend ax)) \<and>
     (\<exists>a y l. axes_at iy ix final = Inr (Axes a, final) \<and>
        funcs_at iy ix final = Inr (Arr y, final) \<and>
        labels_at iy ix final = Inr (PyStr l, final) \<and>
        figure_of (axs final ! a) = 5 \<and>
        filter (\<lambda>ln. l_axes ln = a) (lines final) =
          [\<lparr>l_axes = a, l_cell = 24, xdata = 0, ydata = y, l_label = PyStr l\<rparr>] \<and>
        filter (\<lambda>b. b_axes b = a) (bars final) = [] \<and>
        legend (axs final ! a) = Some [l])"
proof -
  assume "iy < 2" and "ix < 3"
  then have c: "iy = 0 \<or> iy = 1" "ix = 0 \<or> ix = 1 \<or> ix = 2"
    by (auto dest: less_2_cases less_3_cases)
  have six: "length (filter (\<lambda>ax. figure_of ax = 5) (axs final)) = 6"
    by (simp add: final_axs_def new_axes_def shared_axes_def)
  have x: "map_of (env final) ''x'' = Some (Arr 0)"
    by (simp add: final_env_def)
  have helper: "\<forall>ax x y l. one_sub ax x y l = then_py (Axes_plot ax x y l) (Axes_legend ax)"
    by (simp add: one_sub_def)
  have cell: "\<exists>a y l. axes_at iy ix final = Inr (Axes a, final) \<and>
        funcs_at iy ix final = Inr (Arr y, final) \<and>
        labels_at iy ix final = Inr (PyStr l, final) \<and>
        figure_of (axs final ! a) = 5 \<and>
        filter (\<lambda>ln. l_axes ln = a) (lines final) =
          [\<lparr>l_axes = a, l_cell = 24, xdata = 0, ydata = y, l_label = PyStr l\<rparr>] \<and>
        filter (\<lambda>b. b_axes b = a) (bars final) = [] \<and>
        legend (axs final ! a) = Some [l]"
    using c
    apply (elim disjE)
    apply (simp_all add: axes_at_final funcs_at_final labels_at_final)
    apply (simp_all add: final_axs_def final_lines_def final_bars_def new_axes_def shared_axes_def)
    done
  show ?thesis using run_script six x helper cell by simp
qed

theorem grid_cells_populated_once_witness:
  "(0::nat) < 2 \<and> (2::nat) < 3 \<and>
   axes_at 0 2 final = Inr (Axes 17, final) \<and>
   filter (\<lambda>ln. l_axes ln = 17) (lines final) =
     [\<lparr>l_axes = 17, l_cell = 24, xdata = 0, ydata = 9, l_label = PyStr ''tanh''\<rparr>] \<and>
   legend (axs final ! 17) = Some [''tanh'']"
  using grid_cells_populated_once [of 0 2]
  by (simp add: axes_at_final funcs_at_final labels_at_final)

text \<open>
  Claim C4. At the end of the run every axes of the shared grid has the x limits
  (-10, 10) set once on \<open>axes[1, 1]\<close> and the major and minor x ticks set once on
  \<open>axes[0, 0]\<close>; the top row has the y limits (-10000, 10000) set on \<open>axes[0, 1]\<close> and the
  bottom row the y limits (-2, 2) set on \<open>axes[1, 1]\<close>. The limits are fixed: autoscaling
  is off on both axes of every cell.
\<close>

theorem shared_axes_linked:
  "iy < 2 \<Longrightarrow> ix < 3 \<Longrightarrow>
     exec script (init None) = Inr final \<and>
     (\<exists>a. axes_at iy ix final = Inr (Axes a, final) \<and>
        xlim (axs final ! a) = (-10, 10) \<and>
        xticks (axs final ! a) = Some [-10, -5, 0, 5, 10] \<and>
        xticks_minor (axs final ! a) =
          Some [-10, -9, -8, -7, -6, -5, -4, -3, -2, -1, 0, 1, 2, 3, 4, 5, 6, 7, 8, 9, 10] \<and>
        ylim (axs final ! a) = (if iy = 0 then (-10000, 10000) else (-2, 2)) \<and>
        \<not> autoscalex_on (axs final ! a) \<and> \<not> autoscaley_on (axs final ! a))"
proof -
  assume "iy < 2" and "ix < 3"
  then have c: "iy = 0 \<or> iy = 1" "ix = 0 \<or> ix = 1 \<or> ix = 2"
    by (auto dest: less_2_cases less_3_cases)
  have "\<exists>a. axes_at iy ix final = Inr (Axes a, final) \<and>
        xlim (axs final ! a) = (-10, 10) \<and>
        xticks (axs final ! a) = Some [-10, -5, 0, 5, 10] \<and>
        xticks_minor (axs final ! a) =
          Some [-10, -9, -8, -7, -6, -5, -4, -3, -2, -1, 0, 1, 2, 3, 4, 5, 6, 7, 8, 9, 10] \<and>
        ylim (axs final ! a) = (if iy = 0 then (-10000, 10000) else (-2, 2)) \<and>
        \<not> autoscalex_on (axs final ! a) \<and> \<not> autoscaley_on (axs final ! a)"
    using c
    apply (elim disjE)
    apply (simp_all add: axes_at_final)
    apply (simp_all add: final_axs_def new_axes_def shared_axes_def arange_def upt_rec)
    done
  then show ?thesis using run_script by simp
qed

theorem shared_axes_linked_witness:
  "(0::nat) < 2 \<and> (2::nat) < 3 \<and> axes_at 0 2 final = Inr (Axes 17, final) \<and>
   xlim (axs final ! 17) = (-10, 10) \<and> ylim (axs final ! 17) = (-10000, 10000)"
  using shared_axes_linked [of 0 2]
  by (simp add: axes_at_final)

lemma nth_samples_map: "i < 1000 \<Longrightarrow> map f samples ! i = f (samples ! i)"
  by (simp add: samples_def)

text \<open>
  Claim C10. The array \<open>x\<close> on the horizontal axis of the grid, made in cell 21, has the
  same values as the array \<open>t\<close> the six functions were sampled at, made in cell 24. So
  the \<open>i\<close>-th point of the line in cell \<open>(iy, ix)\<close> is \<open>(t[i], f(t[i]))\<close> for the
  function \<open>f\<close> of that cell.
\<close>

theorem grid_points_on_graph:
  "iy < 2 \<Longrightarrow> ix < 3 \<Longrightarrow> i < 1000 \<Longrightarrow>
     exec script (init None) = Inr final \<and>
     array_of final ''x'' = array_of final ''t'' \<and>
     length (array_of final ''t'') = 1000 \<and>
     (\<exists>a y. axes_at iy ix final = Inr (Axes a, final) \<and>
        funcs_at iy ix final = Inr (Arr y, final) \<and>
        map (\<lambda>ln. (xdata ln, ydata ln)) (filter (\<lambda>ln. l_axes ln = a) (lines final)) = [(0, y)] \<and>
        as_float (contents (heap final ! 0)) = array_of final ''x'' \<and>
        as_float (contents (heap final ! 0)) ! i = array_of final ''t'' ! i \<and>
        as_float (contents (heap final ! y)) ! i = grid_fn iy ix (array_of final ''t'' ! i))"
proof -
  assume "iy < 2" and "ix < 3" and i: "i < 1000"
  then have c: "iy = 0 \<or> iy = 1" "ix = 0 \<or> ix = 1 \<or> ix = 2"
    by (auto dest: less_2_cases less_3_cases)
  have same: "array_of final ''x'' = array_of final ''t''" "length (array_of final ''t'') = 1000"
    by (simp_all add: array_of_final samples_def)
  have "\<exists>a y. axes_at iy ix final = Inr (Axes a, final) \<and>
        funcs_at iy ix final = Inr (Arr y, final) \<and>
        map (\<lambda>ln. (xdata ln, ydata ln)) (filter (\<lambda>ln. l_axes ln = a) (lines final)) = [(0, y)] \<and>
        as_float (contents (heap final ! 0)) = array_of final ''x'' \<and>
        as_float (contents (heap final ! 0)) ! i = array_of final ''t'' ! i \<and>
        as_float (contents (heap final ! y)) ! i = grid_fn iy ix (array_of final ''t'' ! i)"
    using c i
    apply (elim disjE)
    apply (simp_all add: axes_at_final funcs_at_final)
    apply (simp_all add: array_of_final final_lines_def final_heap_def grid_fn_def nth_samples_map)
    done
  then show ?thesis using run_script same by simp
qed

theorem grid_points_on_graph_witness:
  "(0::nat) < 2 \<and> (1::nat) < 3 \<and> (999::nat) < 1000 \<and>
   funcs_at 0 1 final = Inr (Arr 7, final) \<and>
   as_float (contents (heap final ! 0)) ! 999 = array_of final ''t'' ! 999 \<and>
   as_float (contents (heap final ! 7)) ! 999 = cosh (array_of final ''t'' ! 999)"
  using grid_points_on_graph [of 0 1 999]
  by (simp add: axes_at_final funcs_at_final grid_fn_def)

section \<open>The plot with two y axes\<close>

text \<open>
  Claim C5. The figure of cell 21 has exactly two axes, \<open>ax1\<close> and \<open>ax2 = ax1.twinx()\<close>.
  They are in one x sharing group and have the same x limits and x autoscaling, and they
  are in different y sharing groups. The call \<open>ax2.set_ylim(-1.0, 1.0)\<close> sets the y limits
  of \<open>ax2\<close> to (-1, 1) and switches its y autoscaling off; it leaves \<open>ax1\<close> as it was, with
  y autoscaling on, and so both stay to the end of the run.
\<close>

theorem twin_axes_share_x_only:
  "exec (cell19 @ cell20 @ take 15 cell21) (init None) = Inr before_set_ylim \<and>
   cell21 ! 15 = call1 (Axes_set_ylim (-1) 1) (var ''ax2'') \<and>
   call1 (Axes_set_ylim (-1) 1) (var ''ax2'') before_set_ylim = Inr ((), after_set_ylim) \<and>
   map_of (env before_set_ylim) ''ax1'' = Some (Axes 1) \<and>
   map_of (env before_set_ylim) ''ax2'' = Some (Axes 2) \<and>
   map fst (filter (\<lambda>(i, ax). figure_of ax = 2) (enumerate 0 (axs final))) = [1, 2] \<and>
   sharex_group (axs after_set_ylim ! 1) = sharex_group (axs after_set_ylim ! 2) \<and>
   xlim (axs after_set_ylim ! 1) = xlim (axs after_set_ylim ! 2) \<and>
   autoscalex_on (axs after_set_ylim ! 1) = autoscalex_on (axs after_set_ylim ! 2) \<and>
   sharey_group (axs after_set_ylim ! 1) \<noteq> sharey_group (axs after_set_ylim ! 2) \<and>
   axs after_set_ylim ! 1 = axs before_set_ylim ! 1 \<and>
   autoscaley_on (axs after_set_ylim ! 1) \<and>
   ylim (axs after_set_ylim ! 2) = (-1, 1) \<and> \<not> autoscaley_on (axs after_set_ylim ! 2) \<and>
   axs final ! 1 = axs after_set_ylim ! 1 \<and> axs final ! 2 = axs after_set_ylim ! 2"
proof -
  have pre: "exec (cell19 @ cell20 @ take 15 cell21) (init None) = Inr before_set_ylim"
    by (simp add: py_defs cell_defs before_set_ylim_def final_defs)
  have stmt: "cell21 ! 15 = call1 (Axes_set_ylim (-1) 1) (var ''ax2'')"
    by (simp add: cell21_def)
  have step: "call1 (Axes_set_ylim (-1) 1) (var ''ax2'') before_set_ylim = Inr ((), after_set_ylim)"
    by (simp add: py_defs before_set_ylim_def after_set_ylim_def final_defs)
  have rest: "map_of (env before_set_ylim) ''ax1'' = Some (Axes 1)"
    "map_of (env before_set_ylim) ''ax2'' = Some (Axes 2)"
    "map fst (filter (\<lambda>(i, ax). figure_of ax = 2) (enumerate 0 (axs final))) = [1, 2]"
    "sharex_group (axs after_set_ylim ! 1) = sharex_group (axs after_set_ylim ! 2)"
    "xlim (axs after_set_ylim ! 1) = xlim (axs after_set_ylim ! 2)"
    "autoscalex_on (axs after_set_ylim ! 1) = autoscalex_on (axs after_set_ylim ! 2)"
    "sharey_group (axs after_set_ylim ! 1) \<noteq> sharey_group (axs after_set_ylim ! 2)"
    "axs after_set_ylim ! 1 = axs before_set_ylim ! 1"
    "autoscaley_on (axs after_set_ylim ! 1)"
    "ylim (axs after_set_ylim ! 2) = (-1, 1)" "\<not> autoscaley_on (axs after_set_ylim ! 2)"
    "axs final ! 1 = axs after_set_ylim ! 1" "axs final ! 2 = axs after_set_ylim ! 2"
    by (simp_all add: before_set_ylim_def after_set_ylim_def final_axs_def new_axes_def
        shared_axes_def)
  show ?thesis using pre stmt step rest by simp
qed


section \<open>Arrays are only ever added\<close>

named_theorems hg

lemma hg_ret [hg]: "heap_grows (ret v)"
  by (simp add: heap_grows_def ret_def)

lemma hg_raise [hg]: "heap_grows (raise e)"
  by (simp add: heap_grows_def raise_def)

lemma hg_bind [hg]:
  assumes "heap_grows m" and "\<And>v. heap_grows (f v)"
  shows "heap_grows (bind_py m f)"
  unfolding heap_grows_def
proof (intro allI impI)
  fix s v s'
  assume run: "bind_py m f s = Inr (v, s')"
  then obtain w s1 where m: "m s = Inr (w, s1)" and f: "f w s1 = Inr (v, s')"
    by (auto simp: bind_py_def split: sum.splits)
  from assms(1) m have a: "length (heap s) \<le> length (heap s1)" "take (length (heap s)) (heap s1) = heap s"
    by (auto simp: heap_grows_def)
  from assms(2) f have b: "length (heap s1) \<le> length (heap s')" "take (length (heap s1)) (heap s') = heap s1"
    by (auto simp: heap_grows_def)
  have "take (length (heap s)) (heap s') = take (length (heap s)) (take (length (heap s1)) (heap s'))"
    using a(1) by (simp add: min_def)
  then show "length (heap s) \<le> length (heap s') \<and> take (length (heap s)) (heap s') = heap s"
    using a b by simp
qed

lemma hg_then [hg]: "heap_grows m \<Longrightarrow> heap_grows n \<Longrightarrow> heap_grows (then_py m n)"
  by (simp add: then_py_def hg_bind)

lemma hg_modify: "(\<And>s. heap (f s) = heap s) \<Longrightarrow> heap_grows (modify f)"
  by (simp add: heap_grows_def modify_def)

lemma hg_gets [hg]: "heap_grows (gets f)"
  by (simp add: heap_grows_def gets_def)

lemma hg_state: "(\<And>s v s'. m s = Inr (v, s') \<Longrightarrow> heap s' = heap s) \<Longrightarrow> heap_grows m"
  by (auto simp: heap_grows_def)

lemma heap_growsD:
  "heap_grows m \<Longrightarrow> m s = Inr (v, s') \<Longrightarrow>
     length (heap s) \<le> length (heap s') \<and> take (length (heap s)) (heap s') = heap s"
  by (simp add: heap_grows_def)

lemma hg_mpl [hg]:
  assumes "heap_grows m"
  shows "heap_grows (mpl m)"
  unfolding heap_grows_def
proof (intro allI impI)
  fix s v s'
  assume "mpl m s = Inr (v, s')"
  then have "m (s\<lparr>calls := calls s + 1\<rparr>) = Inr (v, s')"
    by (auto simp: mpl_def split: option.splits if_splits prod.splits)
  from heap_growsD [OF assms this]
  show "length (heap s) \<le> length (heap s') \<and> take (length (heap s)) (heap s') = heap s"
    by simp
qed

lemma hg_if [hg]: "heap_grows a \<Longrightarrow> heap_grows b \<Longrightarrow> heap_grows (if c then a else b)"
  by simp

lemma hg_case_prod [hg]: "(\<And>a b. heap_grows (f a b)) \<Longrightarrow> heap_grows (case p of (a, b) \<Rightarrow> f a b)"
  by (cases p) simp

lemma hg_In [hg]: "heap_grows (In n)"
  by (simp add: In_def hg_modify)

lemma hg_var [hg]: "heap_grows (var n)"
  by (rule hg_state) (auto simp: var_def split: option.splits)

lemma hg_alloc [hg]: "heap_grows (alloc a)"
  by (auto simp: heap_grows_def alloc_def)

lemma hg_deref [hg]: "heap_grows (deref v)"
  by (rule hg_state) (auto simp: deref_def split: pyval.splits if_splits)

lemma hg_assign [hg]: "heap_grows e \<Longrightarrow> heap_grows (assign n e)"
  by (simp add: assign_def hg_bind hg_modify)

lemma hg_assign2 [hg]: "heap_grows e \<Longrightarrow> heap_grows (assign2 a b e)"
  unfolding assign2_def
  by (rule hg_bind) (auto intro: hg_modify hg_raise split: pyval.splits list.splits)

lemma hg_py_index [hg]: "heap_grows (py_index xs i)"
  by (simp add: py_index_def Let_def hg_ret hg_raise)

lemma hg_subscr [hg]: "heap_grows e \<Longrightarrow> heap_grows i \<Longrightarrow> heap_grows (subscr e i)"
  unfolding subscr_def
  by (intro hg_bind) (auto intro: hg_py_index hg_raise split: pyval.splits)

lemma hg_subscr2 [hg]: "heap_grows e \<Longrightarrow> heap_grows i \<Longrightarrow> heap_grows j \<Longrightarrow> heap_grows (subscr2 e i j)"
  by (simp add: subscr2_def hg_subscr)

lemma hg_eval_all: "list_all heap_grows es \<Longrightarrow> heap_grows (eval_all es)"
  by (induction es) (auto intro!: hg_bind hg_ret)

lemma hg_py_list [hg]: "list_all heap_grows es \<Longrightarrow> heap_grows (py_list es)"
  by (simp add: py_list_def hg_bind hg_eval_all hg_ret)

lemma hg_for_in [hg]: "heap_grows body \<Longrightarrow> heap_grows (for_in v is body)"
  by (induction "is") (auto intro!: hg_then hg_assign hg_ret)

lemma hg_ufunc [hg]: "heap_grows e \<Longrightarrow> heap_grows (ufunc f e)"
  unfolding ufunc_def by (intro hg_bind hg_deref hg_alloc)

lemma hg_numpy [hg]:
  "heap_grows (np_linspace a b n)" "heap_grows (np_arange i j k)" "heap_grows (np_array xs)"
  "heap_grows e \<Longrightarrow> heap_grows (np_sin e)" "heap_grows e \<Longrightarrow> heap_grows (np_cos e)"
  "heap_grows e \<Longrightarrow> heap_grows (np_tan e)" "heap_grows e \<Longrightarrow> heap_grows (np_sinh e)"
  "heap_grows e \<Longrightarrow> heap_grows (np_cosh e)" "heap_grows e \<Longrightarrow> heap_grows (np_tanh e)"
  "heap_grows e \<Longrightarrow> heap_grows (arr_div e c)" "heap_grows e \<Longrightarrow> heap_grows (arr_sub e c)"
  "heap_grows e \<Longrightarrow> heap_grows (arr_add e c)"
  by (simp_all add: np_linspace_def np_arange_def np_array_def np_sin_def np_cos_def np_tan_def
      np_sinh_def np_cosh_def np_tanh_def arr_div_def arr_sub_def arr_add_def
      hg_alloc hg_raise hg_ufunc)

lemma hg_calls [hg]:
  "(\<And>v. heap_grows (f1 v)) \<Longrightarrow> heap_grows e1 \<Longrightarrow> heap_grows (call1 f1 e1)"
  "(\<And>v w. heap_grows (f2 v w)) \<Longrightarrow> heap_grows e1 \<Longrightarrow> heap_grows e2 \<Longrightarrow> heap_grows (call2 f2 e1 e2)"
  "(\<And>v w x. heap_grows (f3 v w x)) \<Longrightarrow> heap_grows e1 \<Longrightarrow> heap_grows e2 \<Longrightarrow> heap_grows e3 \<Longrightarrow>
     heap_grows (call3 f3 e1 e2 e3)"
  "(\<And>v w x y. heap_grows (f4 v w x y)) \<Longrightarrow> heap_grows e1 \<Longrightarrow> heap_grows e2 \<Longrightarrow> heap_grows e3 \<Longrightarrow>
     heap_grows e4 \<Longrightarrow> heap_grows (call4 f4 e1 e2 e3 e4)"
  by (simp_all add: call1_def call2_def call3_def call4_def hg_bind)

lemma hg_expr_stmt [hg]: "heap_grows e \<Longrightarrow> heap_grows (expr_stmt e)"
  by (simp add: expr_stmt_def hg_bind hg_ret)

lemma hg_the_axes [hg]: "heap_grows (the_axes v)"
  by (rule hg_state) (auto simp: the_axes_def split: pyval.splits if_splits)

lemma hg_new_figure [hg]: "heap_grows new_figure"
  by (rule hg_state) (auto simp: new_figure_def)

lemma hg_gca [hg]: "heap_grows gca"
  by (rule hg_state) (auto simp: gca_def new_figure_def split: option.splits)

lemma hg_update_axes [hg]: "heap_grows (update_axes a f)"
  by (simp add: update_axes_def hg_modify)

lemma hg_update_group [hg]: "heap_grows (update_group g n f)"
  by (simp add: update_group_def hg_modify)


lemma hg_pyplot [hg]:
  "heap_grows plt_figure" "heap_grows plt_close" "heap_grows (plt_subplots r c sx sy)"
  "heap_grows plt_show" "heap_grows plt_legend" "heap_grows (plt_title l)"
  "heap_grows (plt_xlabel l)" "heap_grows (plt_ylabel l)" "heap_grows (plt_bar w lbl x h b)"
  unfolding plt_figure_def plt_close_def plt_subplots_def plt_show_def plt_legend_def
    plt_title_def plt_xlabel_def plt_ylabel_def plt_bar_def
  by ((intro hg hg_modify allI impI conjI
        | simp split: pyval.splits option.splits list.splits prod.splits)+)

lemma hg_axes_methods [hg]:
  "heap_grows (Axes_twinx v)" "heap_grows (Axes_set_xlim lo hi v)"
  "heap_grows (Axes_set_ylim lo hi v)" "heap_grows (Axes_set_xticks mi v t)"
  "heap_grows (Axes_set_xlabel l v)" "heap_grows (Axes_set_ylabel l v)"
  "heap_grows (Axes_tick_params v)" "heap_grows (Axes_plot v x y lbl)"
  "heap_grows (Axes_legend v)" "heap_grows (Figure_tight_layout v)"
  "heap_grows (Figure_suptitle l v)"
  unfolding Axes_twinx_def Axes_set_xlim_def Axes_set_ylim_def Axes_set_xticks_def
    Axes_set_xlabel_def Axes_set_ylabel_def Axes_tick_params_def Axes_plot_def Axes_legend_def
    Figure_tight_layout_def Figure_suptitle_def
  by ((intro hg hg_modify allI impI conjI
        | simp split: pyval.splits option.splits list.splits prod.splits)+)

lemma hg_one_sub [hg]: "heap_grows (one_sub ax x y l)"
  unfolding one_sub_def by (intro hg)

lemma hg_plot_row [hg]: "heap_grows plot_row"
  unfolding plot_row_def by (intro hg)

lemma hg_script: "list_all heap_grows script"
  unfolding cell_defs by (simp, (intro hg hg_modify allI impI conjI | simp)+)


lemma block_Nil: "block [] = ret ()"
  by (rule ext) (simp add: block_def ret_def)

lemma block_Cons: "block (c # cs) = then_py c (block cs)"
  by (rule ext) (simp add: block_def then_py_def bind_py_def split: sum.splits)

lemma hg_block: "list_all heap_grows cs \<Longrightarrow> heap_grows (block cs)"
  by (induction cs) (simp_all add: block_Nil block_Cons hg_ret hg_then)

lemma exec_block: "exec cs s = Inr s' \<longleftrightarrow> block cs s = Inr ((), s')"
  by (auto simp: block_def split: sum.splits)

lemma exec_block_Inl: "exec cs s = Inl x \<longleftrightarrow> block cs s = Inl x"
  by (auto simp: block_def split: sum.splits)

lemma exec_append:
  "exec (xs @ ys) s = (case exec xs s of Inl e \<Rightarrow> Inl e | Inr s' \<Rightarrow> exec ys s')"
  by (induction xs arbitrary: s) (auto split: sum.splits)

lemma list_all_drop: "list_all P xs \<Longrightarrow> list_all P (drop n xs)"
  by (auto simp: list_all_iff dest: in_set_dropD)

text \<open>
  Claim C6, as stated, fails. The claim has two parts: no array is changed once it is
  created, and no array is used outside the example it was created for. The second part
  is false: cell 23, of the subplot example, plots \<open>x\<close>, created in cell 21 for the example
  with two y axes; and cell 27, the stacked bars, plots \<open>years\<close>, created in cell 25 for
  the bars side by side.
\<close>

theorem arrays_not_scoped:
  "exec script (init None) = Inr final \<and>
   (23, 0) \<in> set (reads final) \<and> created_in (heap final ! 0) = 21 \<and>
   example_of 23 = SubplotGrids \<and> example_of 21 = TwoAxes \<and>
   (27, 12) \<in> set (reads final) \<and> created_in (heap final ! 12) = 25 \<and>
   example_of 27 = BarsStacked \<and> example_of 25 = BarsSideBySide \<and>
   \<not> scoped final"
  using run_script
  by (simp add: scoped_def cross_reads_def example_of_def final_reads_def final_heap_def)

text \<open>
  Claim C6, amended. No array is changed once it is created: after any number \<open>n\<close> of the
  script's statements, the arrays in the store are still in the store at the end of the
  run, unchanged (rescaling binds the name to a new array). Arrays are shared by examples
  through the global namespace: \<open>x\<close> (address 0) and the first \<open>sin\<close> (address 2), created in
  cell 21, are read by cells 23 and 24; \<open>years\<close> and the rescaled \<open>inner_pop\<close> and
  \<open>outer_pop\<close> (addresses 12, 16 and 17), created in cell 25, are read by cell 27. Every
  other read is by the example that created the array.
\<close>

theorem arrays_never_mutated:
  "n \<le> length script \<Longrightarrow>
     (\<exists>s. exec (take n script) (init None) = Inr s \<and>
          exec (drop n script) s = Inr final \<and>
          length (heap s) \<le> length (heap final) \<and>
          take (length (heap s)) (heap final) = heap s) \<and>
     map (\<lambda>(c, a). (c, created_in (heap final ! a), a)) (remdups (cross_reads final)) =
       [(23, 21, 0), (23, 21, 2), (24, 21, 0), (27, 25, 12), (27, 25, 17), (27, 25, 16)]"
proof -
  assume "n \<le> length script"
  have "(case exec (take n script) (init None) of Inl e \<Rightarrow> Inl e
         | Inr s' \<Rightarrow> exec (drop n script) s') = Inr final"
    using run_script exec_append [of "take n script" "drop n script" "init None"] by simp
  then obtain s where pre: "exec (take n script) (init None) = Inr s"
    and post: "exec (drop n script) s = Inr final"
    by (auto split: sum.splits)
  have "heap_grows (block (drop n script))"
    by (intro hg_block list_all_drop hg_script)
  moreover have "block (drop n script) s = Inr ((), final)"
    using post by (simp add: exec_block)
  ultimately have "length (heap s) \<le> length (heap final) \<and>
      take (length (heap s)) (heap final) = heap s"
    by (rule heap_growsD)
  with pre post have run: "\<exists>s. exec (take n script) (init None) = Inr s \<and>
      exec (drop n script) s = Inr final \<and>
      length (heap s) \<le> length (heap final) \<and>
      take (length (heap s)) (heap final) = heap s"
    by blast
  have cross: "map (\<lambda>(c, a). (c, created_in (heap final ! a), a)) (remdups (cross_reads final)) =
       [(23, 21, 0), (23, 21, 2), (24, 21, 0), (27, 25, 12), (27, 25, 17), (27, 25, 16)]"
    by (simp add: cross_reads_def example_of_def final_reads_def final_heap_def)
  show ?thesis using run cross by simp
qed

theorem arrays_never_mutated_witness:
  "(40::nat) \<le> length script \<and>
   (\<exists>s. exec (take 40 script) (init None) = Inr s \<and>
        take (length (heap s)) (heap final) = heap s)"
  using arrays_never_mutated [of 40]
  by (auto simp: cell_defs)

section \<open>Exceptions of the library\<close>

named_theorems rs

lemma propagatesD:
  assumes "propagates k e m" and "m s = Inr (v, s')"
  shows "calls s \<le> calls s'" and "fault s' = fault s"
    and "fault s = None \<Longrightarrow> calls s \<le> k \<Longrightarrow>
      m (s\<lparr>fault := Some (k, e)\<rparr>) =
        (if calls s' \<le> k then Inr (v, s'\<lparr>fault := Some (k, e)\<rparr>) else Inl e)"
  using assms by (auto simp: propagates_def)

lemma rs_ret [rs]: "propagates k e (ret v)"
  by (simp add: propagates_def ret_def)

lemma rs_raise [rs]: "propagates k e (raise x)"
  by (simp add: propagates_def raise_def)

lemma rs_modify:
  "(\<And>s. calls (f s) = calls s) \<Longrightarrow> (\<And>s. fault (f s) = fault s) \<Longrightarrow>
   (\<And>s F. f (s\<lparr>fault := F\<rparr>) = (f s)\<lparr>fault := F\<rparr>) \<Longrightarrow> propagates k e (modify f)"
  by (simp add: propagates_def modify_def)

lemma rs_gets: "(\<And>s F. f (s\<lparr>fault := F\<rparr>) = f s) \<Longrightarrow> propagates k e (gets f)"
  by (simp add: propagates_def gets_def)

lemma rs_bind [rs]:
  assumes "propagates k e m" and "\<And>v. propagates k e (f v)"
  shows "propagates k e (bind_py m f)"
  unfolding propagates_def
proof (intro allI impI)
  fix s v s'
  assume run: "bind_py m f s = Inr (v, s')"
  then obtain w s1 where m: "m s = Inr (w, s1)" and f: "f w s1 = Inr (v, s')"
    by (auto simp: bind_py_def split: sum.splits)
  note a = propagatesD [OF assms(1) m]
  note b = propagatesD [OF assms(2) f]
  have faulted: "bind_py m f (s\<lparr>fault := Some (k, e)\<rparr>) =
      (if calls s' \<le> k then Inr (v, s'\<lparr>fault := Some (k, e)\<rparr>) else Inl e)"
    if ok: "fault s = None" "calls s \<le> k"
  proof (cases "calls s1 \<le> k")
    case True
    with a(3) [OF ok] have "m (s\<lparr>fault := Some (k, e)\<rparr>) = Inr (w, s1\<lparr>fault := Some (k, e)\<rparr>)"
      by simp
    moreover have "fault s1 = None" using a(2) ok by simp
    ultimately show ?thesis using b(3) True by (simp add: bind_py_def)
  next
    case False
    with a(3) [OF ok] have "m (s\<lparr>fault := Some (k, e)\<rparr>) = Inl e" by simp
    moreover have "\<not> calls s' \<le> k" using False b(1) by simp
    ultimately show ?thesis by (simp add: bind_py_def)
  qed
  show "calls s \<le> calls s' \<and> fault s' = fault s \<and>
     (fault s = None \<and> calls s \<le> k \<longrightarrow>
        bind_py m f (s\<lparr>fault := Some (k, e)\<rparr>) =
          (if calls s' \<le> k then Inr (v, s'\<lparr>fault := Some (k, e)\<rparr>) else Inl e))"
    using a(1,2) b(1,2) faulted by simp
qed

lemma rs_then [rs]: "propagates k e m \<Longrightarrow> propagates k e n \<Longrightarrow> propagates k e (then_py m n)"
  by (simp add: then_py_def rs_bind)

lemma rs_mpl [rs]:
  assumes "propagates k e m"
  shows "propagates k e (mpl m)"
  unfolding propagates_def
proof (intro allI impI)
  fix s v s'
  assume run: "mpl m s = Inr (v, s')"
  let ?t = "s\<lparr>calls := calls s + 1\<rparr>"
  from run have m: "m ?t = Inr (v, s')"
    by (auto simp: mpl_def split: option.splits if_splits prod.splits)
  note a = propagatesD [OF assms m]
  have faulted: "mpl m (s\<lparr>fault := Some (k, e)\<rparr>) =
      (if calls s' \<le> k then Inr (v, s'\<lparr>fault := Some (k, e)\<rparr>) else Inl e)"
    if ok: "fault s = None" "calls s \<le> k"
  proof (cases "k = calls s")
    case True
    then have "\<not> calls s' \<le> k" using a(1) by simp
    then show ?thesis using True by (simp add: mpl_def)
  next
    case False
    then have "calls ?t \<le> k" using ok by simp
    with a(3) ok have "m (?t\<lparr>fault := Some (k, e)\<rparr>) =
        (if calls s' \<le> k then Inr (v, s'\<lparr>fault := Some (k, e)\<rparr>) else Inl e)"
      by simp
    moreover have "(s\<lparr>fault := Some (k, e)\<rparr>)\<lparr>calls := calls s + 1\<rparr> = ?t\<lparr>fault := Some (k, e)\<rparr>"
      by (cases s) simp
    moreover have "mpl m (s\<lparr>fault := Some (k, e)\<rparr>) =
        m ((s\<lparr>fault := Some (k, e)\<rparr>)\<lparr>calls := calls s + 1\<rparr>)"
      using False by (simp add: mpl_def)
    ultimately show ?thesis by (simp only:)
  qed
  show "calls s \<le> calls s' \<and> fault s' = fault s \<and>
     (fault s = None \<and> calls s \<le> k \<longrightarrow>
        mpl m (s\<lparr>fault := Some (k, e)\<rparr>) =
          (if calls s' \<le> k then Inr (v, s'\<lparr>fault := Some (k, e)\<rparr>) else Inl e))"
    using a(1,2) faulted by simp
qed

lemma rs_if [rs]: "propagates k e a \<Longrightarrow> propagates k e b \<Longrightarrow> propagates k e (if c then a else b)"
  by simp

lemma rs_case_prod [rs]: "(\<And>a b. propagates k e (f a b)) \<Longrightarrow> propagates k e (case p of (a, b) \<Rightarrow> f a b)"
  by (cases p) simp

lemma rs_In [rs]: "propagates k e (In n)"
  by (simp add: In_def rs_modify)

lemma rs_var [rs]: "propagates k e (var n)"
  by (auto simp: propagates_def var_def split: option.splits)

lemma rs_alloc [rs]: "propagates k e (alloc a)"
  by (auto simp: propagates_def alloc_def)

lemma rs_deref [rs]: "propagates k e (deref v)"
  by (auto simp: propagates_def deref_def split: pyval.splits if_splits)

lemma rs_the_axes [rs]: "propagates k e (the_axes v)"
  by (auto simp: propagates_def the_axes_def split: pyval.splits if_splits)

lemma rs_new_figure [rs]: "propagates k e new_figure"
  by (auto simp: propagates_def new_figure_def)

lemma rs_gca [rs]: "propagates k e gca"
  by (auto simp: propagates_def gca_def new_figure_def split: option.splits)

lemma rs_assign [rs]: "propagates k e m \<Longrightarrow> propagates k e (assign n m)"
  by (simp add: assign_def rs_bind rs_modify)

lemma rs_assign2 [rs]: "propagates k e m \<Longrightarrow> propagates k e (assign2 a b m)"
  unfolding assign2_def
  by (rule rs_bind) (auto intro: rs_modify rs_raise split: pyval.splits list.splits)

lemma rs_py_index [rs]: "propagates k e (py_index xs i)"
  by (simp add: py_index_def Let_def rs_ret rs_raise)

lemma rs_subscr [rs]: "propagates k e m \<Longrightarrow> propagates k e i \<Longrightarrow> propagates k e (subscr m i)"
  unfolding subscr_def
  by (intro rs_bind) (auto intro: rs_py_index rs_raise split: pyval.splits)

lemma rs_subscr2 [rs]:
  "propagates k e m \<Longrightarrow> propagates k e i \<Longrightarrow> propagates k e j \<Longrightarrow> propagates k e (subscr2 m i j)"
  by (simp add: subscr2_def rs_subscr)

lemma rs_eval_all: "list_all (propagates k e) es \<Longrightarrow> propagates k e (eval_all es)"
  by (induction es) (auto intro!: rs_bind rs_ret)

lemma rs_py_list [rs]: "list_all (propagates k e) es \<Longrightarrow> propagates k e (py_list es)"
  by (simp add: py_list_def rs_bind rs_eval_all rs_ret)

lemma rs_for_in [rs]: "propagates k e body \<Longrightarrow> propagates k e (for_in v is body)"
  by (induction "is") (auto intro!: rs_then rs_assign rs_ret)

lemma rs_ufunc [rs]: "propagates k e m \<Longrightarrow> propagates k e (ufunc f m)"
  unfolding ufunc_def by (intro rs_bind rs_deref rs_alloc)

lemma rs_numpy [rs]:
  "propagates k e (np_linspace a b n)" "propagates k e (np_arange i j st)" "propagates k e (np_array xs)"
  "propagates k e m \<Longrightarrow> propagates k e (np_sin m)" "propagates k e m \<Longrightarrow> propagates k e (np_cos m)"
  "propagates k e m \<Longrightarrow> propagates k e (np_tan m)" "propagates k e m \<Longrightarrow> propagates k e (np_sinh m)"
  "propagates k e m \<Longrightarrow> propagates k e (np_cosh m)" "propagates k e m \<Longrightarrow> propagates k e (np_tanh m)"
  "propagates k e m \<Longrightarrow> propagates k e (arr_div m c)" "propagates k e m \<Longrightarrow> propagates k e (arr_sub m c)"
  "propagates k e m \<Longrightarrow> propagates k e (arr_add m c)"
  by (simp_all add: np_linspace_def np_arange_def np_array_def np_sin_def np_cos_def np_tan_def
      np_sinh_def np_cosh_def np_tanh_def arr_div_def arr_sub_def arr_add_def
      rs_alloc rs_raise rs_ufunc)

lemma rs_calls [rs]:
  "(\<And>v. propagates k e (f1 v)) \<Longrightarrow> propagates k e e1 \<Longrightarrow> propagates k e (call1 f1 e1)"
  "(\<And>v w. propagates k e (f2 v w)) \<Longrightarrow> propagates k e e1 \<Longrightarrow> propagates k e e2 \<Longrightarrow>
     propagates k e (call2 f2 e1 e2)"
  "(\<And>v w x. propagates k e (f3 v w x)) \<Longrightarrow> propagates k e e1 \<Longrightarrow> propagates k e e2 \<Longrightarrow>
     propagates k e e3 \<Longrightarrow> propagates k e (call3 f3 e1 e2 e3)"
  "(\<And>v w x y. propagates k e (f4 v w x y)) \<Longrightarrow> propagates k e e1 \<Longrightarrow> propagates k e e2 \<Longrightarrow>
     propagates k e e3 \<Longrightarrow> propagates k e e4 \<Longrightarrow> propagates k e (call4 f4 e1 e2 e3 e4)"
  by (simp_all add: call1_def call2_def call3_def call4_def rs_bind)

lemma rs_expr_stmt [rs]: "propagates k e m \<Longrightarrow> propagates k e (expr_stmt m)"
  by (simp add: expr_stmt_def rs_bind rs_ret)

lemma rs_update_axes [rs]: "propagates k e (update_axes a f)"
  by (simp add: update_axes_def rs_modify)

lemma rs_update_group [rs]: "propagates k e (update_group g n f)"
  by (simp add: update_group_def rs_modify)

lemma rs_pyplot [rs]:
  "propagates k e plt_figure" "propagates k e plt_close" "propagates k e (plt_subplots r c sx sy)"
  "propagates k e plt_show" "propagates k e plt_legend" "propagates k e (plt_title l)"
  "propagates k e (plt_xlabel l)" "propagates k e (plt_ylabel l)" "propagates k e (plt_bar w lbl x h b)"
  unfolding plt_figure_def plt_close_def plt_subplots_def plt_show_def plt_legend_def
    plt_title_def plt_xlabel_def plt_ylabel_def plt_bar_def
  by ((intro rs rs_modify rs_gets allI impI conjI
        | simp add: legend_entries_def split: pyval.splits option.splits list.splits prod.splits)+)

lemma rs_axes_methods [rs]:
  "propagates k e (Axes_twinx v)" "propagates k e (Axes_set_xlim lo hi v)"
  "propagates k e (Axes_set_ylim lo hi v)" "propagates k e (Axes_set_xticks mi v t)"
  "propagates k e (Axes_set_xlabel l v)" "propagates k e (Axes_set_ylabel l v)"
  "propagates k e (Axes_tick_params v)" "propagates k e (Axes_plot v x y lbl)"
  "propagates k e (Axes_legend v)" "propagates k e (Figure_tight_layout v)"
  "propagates k e (Figure_suptitle l v)"
  unfolding Axes_twinx_def Axes_set_xlim_def Axes_set_ylim_def Axes_set_xticks_def
    Axes_set_xlabel_def Axes_set_ylabel_def Axes_tick_params_def Axes_plot_def Axes_legend_def
    Figure_tight_layout_def Figure_suptitle_def
  by ((intro rs rs_modify rs_gets allI impI conjI
        | simp add: legend_entries_def split: pyval.splits option.splits list.splits prod.splits)+)

lemma rs_one_sub [rs]: "propagates k e (one_sub ax x y l)"
  unfolding one_sub_def by (intro rs)

lemma rs_plot_row [rs]: "propagates k e plot_row"
  unfolding plot_row_def by (intro rs)

lemma rs_script: "list_all (propagates k e) script"
  unfolding cell_defs by (simp, (intro rs rs_modify allI impI conjI | simp)+)


lemma rs_block: "list_all (propagates k e) cs \<Longrightarrow> propagates k e (block cs)"
  by (induction cs) (simp_all add: block_Nil block_Cons rs_ret rs_then)

text \<open>
  Claim C8. The script catches nothing. The run makes 64 calls into the plotting library;
  whichever of them raises, whatever the exception, the run of the script ends with that
  same exception.
\<close>

theorem library_error_propagates:
  "k < 64 \<Longrightarrow> exec script (init (Some (k, e))) = Inl e"
proof -
  assume k: "k < 64"
  have "propagates k e (block script)"
    by (intro rs_block rs_script)
  moreover have "block script (init None) = Inr ((), final)"
    using run_script by (simp add: exec_block)
  ultimately have "block script ((init None)\<lparr>fault := Some (k, e)\<rparr>) =
      (if calls final \<le> k then Inr ((), final\<lparr>fault := Some (k, e)\<rparr>) else Inl e)"
    by (rule propagatesD(3)) (simp_all add: init_def)
  moreover have "(init None)\<lparr>fault := Some (k, e)\<rparr> = init (Some (k, e))"
    by (simp add: init_def)
  ultimately have "block script (init (Some (k, e))) = Inl e"
    using k by simp
  then show ?thesis by (simp add: exec_block_Inl)
qed

theorem library_error_propagates_witness:
  "(7::nat) < 64 \<and> exec script (init (Some (7, ValueError))) = Inl ValueError"
  using library_error_propagates [of 7 ValueError] by simp

end
